theory Spec2Isabelle
  imports
    Complex_Main
    "HOL-Library.Multiset"
    "HOL-Library.Char_ord"
    "HOL-Library.List_Lexorder"
    "HOL-Library.Product_Lexorder"
begin

section \<open>Entity schema\<close>

text \<open>
  The rows of the relational store, with the columns of the \<^verbatim>\<open>establishments\<close> and
  \<^verbatim>\<open>attachments\<close> tables. A nullable column is an \<open>option\<close> (\<open>None\<close> is SQL
  \<^verbatim>\<open>NULL\<close>); a timestamp is a number of milliseconds. Strings are compared byte by
  byte (lexicographically, a proper prefix being smaller), which is the ordering of a text
  column under the C collation and of string values in the document store.
\<close>

record establishment =
  eid :: int
  name :: string
  category :: string
  location :: string
  description :: "string option"
  rating :: "string option"
  coverImage :: "string option"
  userId :: int
  createdAt :: "int option"

record attachment =
  aid :: int
  fileName :: string
  fileType :: string
  fileSize :: string
  filePath :: string
  establishmentId :: int
  att_userId :: int
  uploadDate :: "int option"

definition RATING_OPTIONS :: "string list" where
  "RATING_OPTIONS = [''5'', ''4.5'', ''4'', ''3.5'', ''3'', ''2.5'', ''2'']"

section \<open>The query built by the relational storage\<close>

text \<open>
  \<^verbatim>\<open>DatabaseStorage.getEstablishments\<close> collects conditions (\<^verbatim>\<open>eq\<close>, \<^verbatim>\<open>gte\<close>),
  combines them (\<^verbatim>\<open>and\<close>) and picks an \<^verbatim>\<open>orderBy\<close>. The query is data here; the
  store's evaluation of it follows below.
\<close>

datatype column = ColCategory | ColLocation | ColRating | ColName | ColCreatedAt

datatype SQL = Eq column string | Gte column string | And "SQL list"

datatype ordering = Asc column | Desc column

record select_query =
  q_where :: "SQL option"
  q_orderBy :: "ordering option"

record filters =
  f_category :: "string option"
  f_location :: "string option"
  f_rating :: "string option"

text \<open>JavaScript truthiness of an optional string: \<^verbatim>\<open>undefined\<close> and \<^verbatim>\<open>""\<close> are falsy.\<close>

definition truthy_str :: "string option \<Rightarrow> bool" where
  "truthy_str s = (case s of None \<Rightarrow> False | Some v \<Rightarrow> v \<noteq> [])"

definition category_conditions :: "filters \<Rightarrow> SQL list" where
  "category_conditions f =
     (if truthy_str (f_category f) \<and> f_category f \<noteq> Some ''All categories''
      then [Eq ColCategory (the (f_category f))] else [])"

definition location_conditions :: "filters \<Rightarrow> SQL list" where
  "location_conditions f =
     (if truthy_str (f_location f) \<and> f_location f \<noteq> Some ''All locations''
      then [Eq ColLocation (the (f_location f))] else [])"

definition rating_conditions :: "filters \<Rightarrow> SQL list" where
  "rating_conditions f =
     (if truthy_str (f_rating f) \<and> f_rating f \<noteq> Some ''All ratings'' then
        (if f_rating f = Some ''5 stars'' then [Eq ColRating ''5'']
         else if f_rating f = Some ''4+ stars'' then [Gte ColRating ''4'']
         else if f_rating f = Some ''3+ stars'' then [Gte ColRating ''3'']
         else [])
      else [])"

definition conditions :: "filters option \<Rightarrow> SQL list" where
  "conditions fo =
     (case fo of None \<Rightarrow> []
      | Some f \<Rightarrow> category_conditions f @ location_conditions f @ rating_conditions f)"

definition sort_ordering :: "string \<Rightarrow> ordering option" where
  "sort_ordering sortBy =
     (if sortBy = ''Newest first'' \<or> sortBy = ''createdAt'' then Some (Desc ColCreatedAt)
      else if sortBy = ''Highest rated'' then Some (Desc ColRating)
      else if sortBy = ''Name A-Z'' then Some (Asc ColName)
      else if sortBy = ''Name Z-A'' then Some (Desc ColName)
      else None)"

text \<open>The parameter \<^verbatim>\<open>sortBy\<close> defaults to \<^verbatim>\<open>"createdAt"\<close> when it is undefined.\<close>

definition sortBy_default :: "string option \<Rightarrow> string" where
  "sortBy_default s = (case s of None \<Rightarrow> ''createdAt'' | Some v \<Rightarrow> v)"

definition getEstablishments_query :: "filters option \<Rightarrow> string option \<Rightarrow> select_query" where
  "getEstablishments_query fo sortBy =
     (let cs = conditions fo in
      if length cs = 0 then
        \<lparr>q_where = None, q_orderBy = sort_ordering (sortBy_default sortBy)\<rparr>
      else
        \<lparr>q_where = Some (if length cs = 1 then hd cs else And cs),
         q_orderBy = sort_ordering (sortBy_default sortBy)\<rparr>)"

section \<open>Evaluation of a query by the store\<close>

text \<open>
  A comparison with \<^verbatim>\<open>NULL\<close> is not true, so a row whose column is \<^verbatim>\<open>NULL\<close> is not
  selected by a condition on that column. The timestamp column is never compared with a
  string by this program.
\<close>

fun text_of :: "column \<Rightarrow> establishment \<Rightarrow> string option" where
  "text_of ColCategory e = Some (category e)"
| "text_of ColLocation e = Some (location e)"
| "text_of ColRating e = rating e"
| "text_of ColName e = Some (name e)"
| "text_of ColCreatedAt e = None"

fun holds :: "SQL \<Rightarrow> establishment \<Rightarrow> bool" where
  "holds (Eq c v) e = (case text_of c e of None \<Rightarrow> False | Some x \<Rightarrow> x = v)"
| "holds (Gte c v) e = (case text_of c e of None \<Rightarrow> False | Some x \<Rightarrow> v \<le> x)"
| "holds (And cs) e = (\<forall>c \<in> set cs. holds c e)"

definition where_holds :: "SQL option \<Rightarrow> establishment \<Rightarrow> bool" where
  "where_holds w e = (case w of None \<Rightarrow> True | Some c \<Rightarrow> holds c e)"

text \<open>
  The key a row is ordered by. Its first component is the \<^verbatim>\<open>NULL\<close> flag: the store
  sorts \<^verbatim>\<open>NULL\<close> as larger than every value (last ascending, first descending).
\<close>

fun order_key :: "column \<Rightarrow> establishment \<Rightarrow> bool \<times> string \<times> int" where
  "order_key ColName e = (False, name e, 0)"
| "order_key ColCategory e = (False, category e, 0)"
| "order_key ColLocation e = (False, location e, 0)"
| "order_key ColRating e =
     (case rating e of None \<Rightarrow> (True, [], 0) | Some s \<Rightarrow> (False, s, 0))"
| "order_key ColCreatedAt e =
     (case createdAt e of None \<Rightarrow> (True, [], 0) | Some t \<Rightarrow> (False, [], t))"

fun ordered :: "ordering option \<Rightarrow> establishment list \<Rightarrow> establishment list \<Rightarrow> bool" where
  "ordered None rows r = (r = rows)"
| "ordered (Some (Asc c)) rows r = sorted (map (order_key c) r)"
| "ordered (Some (Desc c)) rows r = sorted (rev (map (order_key c) r))"

text \<open>
  \<open>is_result tbl q r\<close>: the sequence \<open>r\<close> is an answer of the store to the query \<open>q\<close>
  on the table \<open>tbl\<close> (listed in its natural order). The answer holds exactly the
  selected rows; with an \<^verbatim>\<open>ORDER BY\<close> it is sorted by the key, rows with equal keys in
  any order; without one it is in the natural order of the table.
\<close>

definition is_result :: "establishment list \<Rightarrow> select_query \<Rightarrow> establishment list \<Rightarrow> bool" where
  "is_result tbl q r =
     (mset r = mset (filter (where_holds (q_where q)) tbl) \<and>
      ordered (q_orderBy q) (filter (where_holds (q_where q)) tbl) r)"

text \<open>One answer, computed: a stable sort of the selected rows.\<close>

definition run_query :: "establishment list \<Rightarrow> select_query \<Rightarrow> establishment list" where
  "run_query tbl q =
     (let rows = filter (where_holds (q_where q)) tbl in
      case q_orderBy q of
        None \<Rightarrow> rows
      | Some (Asc c) \<Rightarrow> sort_key (order_key c) rows
      | Some (Desc c) \<Rightarrow> rev (sort_key (order_key c) rows))"

text \<open>
  \<^verbatim>\<open>DatabaseStorage.getEstablishments\<close> on the table \<open>tbl\<close>: \<open>r\<close> is a sequence it may
  return.
\<close>

definition storage_getEstablishments ::
  "establishment list \<Rightarrow> filters option \<Rightarrow> string option \<Rightarrow> establishment list \<Rightarrow> bool" where
  "storage_getEstablishments tbl fo sortBy r =
     is_result tbl (getEstablishments_query fo sortBy) r"

section \<open>The canonical client-side establishment\<close>

text \<open>
  \<^verbatim>\<open>FirebaseEstablishment\<close>: the identifier is a string and an optional field that is
  \<^verbatim>\<open>undefined\<close> is \<open>None\<close>. The type declares \<^verbatim>\<open>createdAt\<close> a \<^verbatim>\<open>Date\<close>; the value
  held there at run time is a \<^verbatim>\<open>Date\<close> object (in milliseconds) or a string.
\<close>

type_synonym message = string

datatype js_date = DateObject int | DateString string

record FirebaseEstablishment =
  fb_id :: string
  fb_name :: string
  fb_category :: string
  fb_location :: string
  fb_description :: "string option"
  fb_rating :: string
  fb_coverImage :: "string option"
  fb_userId :: "string option"
  fb_createdAt :: js_date

record FirebaseAttachment =
  fa_id :: string
  fa_fileName :: string
  fa_fileType :: string
  fa_fileSize :: string
  fa_filePath :: string
  fa_establishmentId :: string
  fa_userId :: string
  fa_uploadDate :: js_date

text \<open>
  An \<^verbatim>\<open>Establishment\<close> and an \<^verbatim>\<open>Attachment\<close> as the REST adapter holds them: the body
  of a response, parsed from JSON and cast to the row type. A timestamp the server sent
  arrives as a string (its ISO form) or as \<^verbatim>\<open>null\<close>; a value built in the client may
  hold a \<^verbatim>\<open>Date\<close> object.
\<close>

record json_establishment =
  j_id :: int
  j_name :: string
  j_category :: string
  j_location :: string
  j_description :: "string option"
  j_rating :: "string option"
  j_coverImage :: "string option"
  j_userId :: int
  j_createdAt :: "js_date option"

record json_attachment =
  ja_id :: int
  ja_fileName :: string
  ja_fileType :: string
  ja_fileSize :: string
  ja_filePath :: string
  ja_establishmentId :: int
  ja_userId :: int
  ja_uploadDate :: "js_date option"

text \<open>\<^verbatim>\<open>Number.prototype.toString\<close> on an integer: its decimal digits.\<close>

fun digits :: "nat \<Rightarrow> string" where
  "digits n =
     (if n < 10 then [char_of (48 + n)] else digits (n div 10) @ [char_of (48 + n mod 10)])"

definition toString :: "int \<Rightarrow> string" where
  "toString i = (if i < 0 then CHR ''-'' # digits (nat (- i)) else digits (nat i))"

text \<open>\<^verbatim>\<open>x || undefined\<close> and \<^verbatim>\<open>x || d\<close> on a nullable string: null and "" are falsy.\<close>

definition or_undefined :: "string option \<Rightarrow> string option" where
  "or_undefined x = (if truthy_str x then x else None)"

definition or_default :: "string option \<Rightarrow> string \<Rightarrow> string" where
  "or_default x d = (if truthy_str x then the x else d)"

text \<open>
  \<^verbatim>\<open>x || new Date()\<close> on a timestamp, \<open>now\<close> being the value of \<^verbatim>\<open>new Date()\<close>:
  \<^verbatim>\<open>null\<close> and the empty string are falsy; a \<^verbatim>\<open>Date\<close> object and any other string
  are handed on as they are.
\<close>

definition or_now :: "js_date option \<Rightarrow> int \<Rightarrow> js_date" where
  "or_now x now =
     (case x of
        None \<Rightarrow> DateObject now
      | Some (DateObject t) \<Rightarrow> DateObject t
      | Some (DateString s) \<Rightarrow> (if s = [] then DateObject now else DateString s))"

definition toFirebaseEstablishment ::
  "int \<Rightarrow> json_establishment \<Rightarrow> FirebaseEstablishment" where
  "toFirebaseEstablishment now dbEstablishment =
     \<lparr>fb_id = toString (j_id dbEstablishment),
      fb_name = j_name dbEstablishment,
      fb_category = j_category dbEstablishment,
      fb_location = j_location dbEstablishment,
      fb_description = or_undefined (j_description dbEstablishment),
      fb_rating = or_default (j_rating dbEstablishment) ''5'',
      fb_coverImage = or_undefined (j_coverImage dbEstablishment),
      fb_userId = Some (toString (j_userId dbEstablishment)),
      fb_createdAt = or_now (j_createdAt dbEstablishment) now\<rparr>"

definition toFirebaseAttachment :: "int \<Rightarrow> json_attachment \<Rightarrow> FirebaseAttachment" where
  "toFirebaseAttachment now dbAttachment =
     \<lparr>fa_id = toString (ja_id dbAttachment),
      fa_fileName = ja_fileName dbAttachment,
      fa_fileType = ja_fileType dbAttachment,
      fa_fileSize = ja_fileSize dbAttachment,
      fa_filePath = ja_filePath dbAttachment,
      fa_establishmentId = toString (ja_establishmentId dbAttachment),
      fa_userId = toString (ja_userId dbAttachment),
      fa_uploadDate = or_now (ja_uploadDate dbAttachment) now\<rparr>"

section \<open>The document-store adapter\<close>

text \<open>
  A document of the hosted store: its key and its data, with the fields
  \<^verbatim>\<open>addEstablishment\<close> writes. A field of a document is not there, \<^verbatim>\<open>null\<close>, or
  given; for the fields the store is never queried on, \<open>None\<close> stands for both of the
  first two. The provider's timestamp is a pair of seconds and nanoseconds.
\<close>

datatype 'a field = Absent | Null | Given 'a

record Timestamp =
  seconds :: int
  nanoseconds :: int

record document =
  doc_id :: string
  d_name :: string
  d_category :: string
  d_location :: string
  d_description :: "string option"
  d_rating :: "string field"
  d_coverImage :: "string option"
  d_userId :: "string option"
  d_createdAt :: "Timestamp field"

text \<open>\<^verbatim>\<open>data.rating || "5"\<close>: a field not there, \<^verbatim>\<open>null\<close> and "" are falsy.\<close>

definition field_or :: "string field \<Rightarrow> string \<Rightarrow> string" where
  "field_or x d = (case x of Given s \<Rightarrow> (if s = [] then d else s) | _ \<Rightarrow> d)"

text \<open>
  The argument \<open>toDate\<close> is the provider's \<^verbatim>\<open>Timestamp.toDate\<close>, which gives the
  milliseconds of a \<^verbatim>\<open>Date\<close>. It is not code of this repository, and computes in
  floating point: the conversion is stated for every such function.
\<close>

definition convertDocToEstablishment ::
  "(Timestamp \<Rightarrow> int) \<Rightarrow> int \<Rightarrow> document \<Rightarrow> FirebaseEstablishment" where
  "convertDocToEstablishment toDate now doc =
     \<lparr>fb_id = doc_id doc,
      fb_name = d_name doc,
      fb_category = d_category doc,
      fb_location = d_location doc,
      fb_description = Some (or_default (d_description doc) ''''),
      fb_rating = field_or (d_rating doc) ''5'',
      fb_coverImage = Some (or_default (d_coverImage doc) ''''),
      fb_userId = d_userId doc,
      fb_createdAt =
        (case d_createdAt doc of Given t \<Rightarrow> DateObject (toDate t) | _ \<Rightarrow> DateObject now)\<rparr>"

text \<open>
  The second \<^verbatim>\<open>getEstablishments\<close> builds a list of query constraints for the store:
  \<^verbatim>\<open>where(field, "==", v)\<close>, \<^verbatim>\<open>where(field, ">=", v)\<close> and, always last, one
  \<^verbatim>\<open>orderBy(sortField, sortOrder)\<close>.
\<close>

datatype where_op = OpEq | OpGe

datatype direction = DirAsc | DirDesc

datatype constraint = Where column where_op string | OrderBy column direction

definition firestore_filter_constraints :: "filters option \<Rightarrow> constraint list" where
  "firestore_filter_constraints fo =
     (case fo of None \<Rightarrow> []
      | Some f \<Rightarrow>
         (if truthy_str (f_category f) \<and> f_category f \<noteq> Some ''All categories''
          then [Where ColCategory OpEq (the (f_category f))] else []) @
         (if truthy_str (f_location f) \<and> f_location f \<noteq> Some ''All locations''
          then [Where ColLocation OpEq (the (f_location f))] else []) @
         (if truthy_str (f_rating f) \<and> f_rating f \<noteq> Some ''All ratings'' then
            (if f_rating f = Some ''5 stars'' then [Where ColRating OpEq ''5'']
             else if f_rating f = Some ''4+ stars'' then [Where ColRating OpGe ''4'']
             else if f_rating f = Some ''3+ stars'' then [Where ColRating OpGe ''3'']
             else [])
          else []))"

text \<open>
  \<^verbatim>\<open>sortField\<close> and \<^verbatim>\<open>sortOrder\<close> start as \<^verbatim>\<open>"createdAt"\<close> and \<^verbatim>\<open>"desc"\<close> and are
  reassigned only by the four recognised labels.
\<close>

definition firestore_sort :: "string \<Rightarrow> column \<times> direction" where
  "firestore_sort sortBy =
     (if sortBy = ''Newest first'' then (ColCreatedAt, DirDesc)
      else if sortBy = ''Highest rated'' then (ColRating, DirDesc)
      else if sortBy = ''Name A-Z'' then (ColName, DirAsc)
      else if sortBy = ''Name Z-A'' then (ColName, DirDesc)
      else (ColCreatedAt, DirDesc))"

definition queryConstraints :: "filters option \<Rightarrow> string option \<Rightarrow> constraint list" where
  "queryConstraints fo sortBy =
     firestore_filter_constraints fo @
     [OrderBy (fst (firestore_sort (sortBy_default sortBy)))
              (snd (firestore_sort (sortBy_default sortBy)))]"

text \<open>The conditions and the ordering a constraint list asks for.\<close>

fun where_constraints :: "constraint list \<Rightarrow> SQL list" where
  "where_constraints [] = []"
| "where_constraints (Where c OpEq v # cs) = Eq c v # where_constraints cs"
| "where_constraints (Where c OpGe v # cs) = Gte c v # where_constraints cs"
| "where_constraints (OrderBy c d # cs) = where_constraints cs"

fun order_constraint :: "constraint list \<Rightarrow> ordering option" where
  "order_constraint [] = None"
| "order_constraint (Where c opr v # cs) = order_constraint cs"
| "order_constraint (OrderBy c DirAsc # cs) = Some (Asc c)"
| "order_constraint (OrderBy c DirDesc # cs) = Some (Desc c)"

subsection \<open>Evaluation of the constraints by the document store\<close>

text \<open>
  The value of a field of a document; \<open>None\<close> when the document has no such field.
\<close>

datatype fs_value = FNull | FTimestamp Timestamp | FString string

fun of_field :: "('a \<Rightarrow> fs_value) \<Rightarrow> 'a field \<Rightarrow> fs_value option" where
  "of_field g Absent = None"
| "of_field g Null = Some FNull"
| "of_field g (Given x) = Some (g x)"

fun doc_field :: "column \<Rightarrow> document \<Rightarrow> fs_value option" where
  "doc_field ColCategory d = Some (FString (d_category d))"
| "doc_field ColLocation d = Some (FString (d_location d))"
| "doc_field ColName d = Some (FString (d_name d))"
| "doc_field ColRating d = of_field FString (d_rating d)"
| "doc_field ColCreatedAt d = of_field FTimestamp (d_createdAt d)"

text \<open>
  An equality matches the documents whose field is that string, a range those whose
  field is a string at least as large; a field that is not there or \<^verbatim>\<open>null\<close> matches
  neither. An \<^verbatim>\<open>orderBy\<close> leaves out the documents that do not have the field.
\<close>

fun matches :: "constraint \<Rightarrow> document \<Rightarrow> bool" where
  "matches (Where c OpEq v) d = (doc_field c d = Some (FString v))"
| "matches (Where c OpGe v) d =
     (case doc_field c d of Some (FString x) \<Rightarrow> v \<le> x | _ \<Rightarrow> False)"
| "matches (OrderBy c dir) d = (doc_field c d \<noteq> None)"

text \<open>
  The key a document is ordered by: \<^verbatim>\<open>null\<close> comes before every timestamp, a timestamp
  before every string; timestamps are compared by seconds, then nanoseconds.
\<close>

fun value_key :: "fs_value option \<Rightarrow> nat \<times> string \<times> int \<times> int" where
  "value_key None = (0, [], 0, 0)"
| "value_key (Some FNull) = (0, [], 0, 0)"
| "value_key (Some (FTimestamp t)) = (1, [], seconds t, nanoseconds t)"
| "value_key (Some (FString s)) = (2, s, 0, 0)"

definition doc_key :: "column \<Rightarrow> document \<Rightarrow> nat \<times> string \<times> int \<times> int" where
  "doc_key c d = value_key (doc_field c d)"

fun doc_ordered :: "ordering option \<Rightarrow> document list \<Rightarrow> bool" where
  "doc_ordered None ds = sorted (map doc_id ds)"
| "doc_ordered (Some (Asc c)) ds = sorted (map (doc_key c) ds)"
| "doc_ordered (Some (Desc c)) ds = sorted (rev (map (doc_key c) ds))"

text \<open>
  \<open>getDocs docs cs snapshot\<close>: \<open>snapshot\<close> is an outcome of running the query with the
  constraints \<open>cs\<close> on the collection \<open>docs\<close>. The request may fail with a message.
  When it succeeds, the snapshot holds exactly the documents that match every constraint,
  sorted by the key of the first \<^verbatim>\<open>orderBy\<close> in its direction (by document key when
  there is none); documents with equal keys may come in any order, the store's own order
  of them being one.
\<close>

definition selected_docs :: "document list \<Rightarrow> constraint list \<Rightarrow> document list" where
  "selected_docs docs cs = filter (\<lambda>d. \<forall>c \<in> set cs. matches c d) docs"

definition getDocs ::
  "document list \<Rightarrow> constraint list \<Rightarrow> message + document list \<Rightarrow> bool" where
  "getDocs docs cs snapshot =
     (case snapshot of
        Inl msg \<Rightarrow> True
      | Inr ds \<Rightarrow> mset ds = mset (selected_docs docs cs) \<and> doc_ordered (order_constraint cs) ds)"

text \<open>One successful outcome, computed: a stable sort of the matching documents.\<close>

definition run_docs :: "document list \<Rightarrow> constraint list \<Rightarrow> document list" where
  "run_docs docs cs =
     (case order_constraint cs of
        None \<Rightarrow> sort_key doc_id (selected_docs docs cs)
      | Some (Asc c) \<Rightarrow> sort_key (doc_key c) (selected_docs docs cs)
      | Some (Desc c) \<Rightarrow> rev (sort_key (doc_key c) (selected_docs docs cs)))"

text \<open>
  \<^verbatim>\<open>getEstablishments\<close> of the document-store adapter passes \<open>queryConstraints\<close> to the
  store. From the outcome \<open>snapshot\<close> it returns the converted documents, or throws an
  error with the message of the failure, or with its own when that one is empty.
\<close>

definition firestore_getEstablishments ::
  "(Timestamp \<Rightarrow> int) \<Rightarrow> int \<Rightarrow> message + document list \<Rightarrow>
     message + FirebaseEstablishment list" where
  "firestore_getEstablishments toDate now snapshot =
     (case snapshot of
        Inl msg \<Rightarrow> Inl (if msg = [] then ''Failed to get establishments'' else msg)
      | Inr docs \<Rightarrow> Inr (map (convertDocToEstablishment toDate now) docs))"

section \<open>The REST adapter\<close>

text \<open>
  Each adapter function awaits one \<^verbatim>\<open>apiRequest\<close>, which either rejects with an
  \<^verbatim>\<open>Error\<close> carrying a message or resolves with the parsed body. That outcome is the
  argument \<open>resp\<close> (\<open>Inl\<close> the message). The adapter's own outcome is again a sum:
  \<open>Inl\<close> when the returned promise rejects, \<open>Inr\<close> when it resolves.
\<close>

definition fetchEstablishments ::
  "int \<Rightarrow> message + json_establishment list \<Rightarrow> message + FirebaseEstablishment list" where
  "fetchEstablishments now resp =
     (case resp of
        Inl err \<Rightarrow> Inr []
      | Inr establishments \<Rightarrow> Inr (map (toFirebaseEstablishment now) establishments))"

definition fetchEstablishment ::
  "int \<Rightarrow> message + json_establishment \<Rightarrow> message + FirebaseEstablishment option" where
  "fetchEstablishment now resp =
     (case resp of
        Inl err \<Rightarrow> Inr None
      | Inr establishment \<Rightarrow> Inr (Some (toFirebaseEstablishment now establishment)))"

text \<open>The fields of the \<^verbatim>\<open>Partial\<close> argument that decide the control flow.\<close>

record establishment_data =
  data_name :: "string option"
  data_category :: "string option"
  data_location :: "string option"

definition adapter_createEstablishment ::
  "int \<Rightarrow> establishment_data \<Rightarrow> message + json_establishment \<Rightarrow>
     message + FirebaseEstablishment" where
  "adapter_createEstablishment now data resp =
     (if \<not> truthy_str (data_name data) \<or> \<not> truthy_str (data_category data)
         \<or> \<not> truthy_str (data_location data)
      then Inl ''Missing required fields: name, category, and location are required''
      else case resp of
             Inl err \<Rightarrow> Inl err
           | Inr establishment \<Rightarrow> Inr (toFirebaseEstablishment now establishment))"

definition adapter_updateEstablishment :: "message + bool \<Rightarrow> message + bool" where
  "adapter_updateEstablishment resp =
     (case resp of Inl err \<Rightarrow> Inr False | Inr success \<Rightarrow> Inr success)"

definition adapter_deleteEstablishment :: "message + bool \<Rightarrow> message + bool" where
  "adapter_deleteEstablishment resp =
     (case resp of Inl err \<Rightarrow> Inr False | Inr success \<Rightarrow> Inr success)"

definition fetchAttachments ::
  "int \<Rightarrow> message + json_attachment list \<Rightarrow> message + FirebaseAttachment list" where
  "fetchAttachments now resp =
     (case resp of
        Inl err \<Rightarrow> Inr []
      | Inr attachments \<Rightarrow> Inr (map (toFirebaseAttachment now) attachments))"

record attachment_data =
  data_fileName :: string
  data_fileType :: string
  data_fileSize :: string
  data_filePath :: string
  data_establishmentId :: string
  data_userId :: string

definition adapter_createAttachment ::
  "int \<Rightarrow> attachment_data \<Rightarrow> message + json_attachment \<Rightarrow>
     message + FirebaseAttachment" where
  "adapter_createAttachment now data resp =
     (if data_fileName data = [] \<or> data_fileType data = [] \<or> data_fileSize data = []
         \<or> data_filePath data = [] \<or> data_establishmentId data = [] \<or> data_userId data = []
      then Inl ''Missing required fields for attachment''
      else case resp of
             Inl err \<Rightarrow> Inl err
           | Inr attachment \<Rightarrow> Inr (toFirebaseAttachment now attachment))"

definition adapter_deleteAttachment :: "message + bool \<Rightarrow> message + bool" where
  "adapter_deleteAttachment resp =
     (case resp of Inl err \<Rightarrow> Inr False | Inr success \<Rightarrow> Inr success)"

section \<open>The relational storage as a state\<close>

text \<open>
  The two tables in their natural order and the next values of their \<^verbatim>\<open>serial\<close>
  identifiers. Each operation returns its result and the new state.
\<close>

record store =
  establishments :: "establishment list"
  attachments :: "attachment list"
  next_establishment_id :: int
  next_attachment_id :: int

text \<open>
  A value to insert is a \<open>field\<close>: left out (the column default applies), \<^verbatim>\<open>null\<close>, or
  given.
\<close>

record InsertEstablishment =
  ins_name :: string
  ins_category :: string
  ins_location :: string
  ins_description :: "string field"
  ins_rating :: "string field"
  ins_coverImage :: "string field"
  ins_userId :: "int option"

record InsertAttachment =
  ins_fileName :: string
  ins_fileType :: string
  ins_fileSize :: string
  ins_filePath :: string
  ins_establishmentId :: int
  ins_att_userId :: "int option"

definition nullable :: "'a field \<Rightarrow> 'a option \<Rightarrow> 'a option" where
  "nullable v dflt = (case v of Absent \<Rightarrow> dflt | Null \<Rightarrow> None | Given x \<Rightarrow> Some x)"

definition storage_getEstablishment :: "int \<Rightarrow> store \<Rightarrow> establishment option" where
  "storage_getEstablishment i db =
     (case filter (\<lambda>e. eid e = i) (establishments db) of [] \<Rightarrow> None | e # _ \<Rightarrow> Some e)"

definition storage_createEstablishment ::
  "int \<Rightarrow> InsertEstablishment \<Rightarrow> store \<Rightarrow> establishment \<times> store" where
  "storage_createEstablishment now v db =
     (let row = \<lparr>eid = next_establishment_id db,
                 name = ins_name v,
                 category = ins_category v,
                 location = ins_location v,
                 description = nullable (ins_description v) None,
                 rating = nullable (ins_rating v) (Some ''5''),
                 coverImage = nullable (ins_coverImage v) None,
                 userId = (case ins_userId v of None \<Rightarrow> 1 | Some u \<Rightarrow> u),
                 createdAt = Some now\<rparr>
      in (row, db\<lparr>establishments := establishments db @ [row],
                  next_establishment_id := next_establishment_id db + 1\<rparr>))"

text \<open>
  \<^verbatim>\<open>deleteEstablishment\<close> awaits two statements in turn: the deletion of the attachments
  of the establishment, then the deletion of its row, which reports the deleted rows.
\<close>

definition delete_attachments_of :: "int \<Rightarrow> store \<Rightarrow> store" where
  "delete_attachments_of i db =
     db\<lparr>attachments := filter (\<lambda>a. establishmentId a \<noteq> i) (attachments db)\<rparr>"

definition delete_establishment_row :: "int \<Rightarrow> store \<Rightarrow> establishment list \<times> store" where
  "delete_establishment_row i db =
     (filter (\<lambda>e. eid e = i) (establishments db),
      db\<lparr>establishments := filter (\<lambda>e. eid e \<noteq> i) (establishments db)\<rparr>)"

definition storage_deleteEstablishment :: "int \<Rightarrow> store \<Rightarrow> bool \<times> store" where
  "storage_deleteEstablishment i db =
     (let db1 = delete_attachments_of i db;
          (result, db2) = delete_establishment_row i db1
      in (length result > 0, db2))"

definition storage_getAttachments :: "int \<Rightarrow> store \<Rightarrow> attachment list" where
  "storage_getAttachments i db = filter (\<lambda>a. establishmentId a = i) (attachments db)"

definition storage_createAttachment ::
  "int \<Rightarrow> InsertAttachment \<Rightarrow> store \<Rightarrow> attachment \<times> store" where
  "storage_createAttachment now v db =
     (let row = \<lparr>aid = next_attachment_id db,
                 fileName = ins_fileName v,
                 fileType = ins_fileType v,
                 fileSize = ins_fileSize v,
                 filePath = ins_filePath v,
                 establishmentId = ins_establishmentId v,
                 att_userId = (case ins_att_userId v of None \<Rightarrow> 1 | Some u \<Rightarrow> u),
                 uploadDate = Some now\<rparr>
      in (row, db\<lparr>attachments := attachments db @ [row],
                  next_attachment_id := next_attachment_id db + 1\<rparr>))"

definition storage_deleteAttachment :: "int \<Rightarrow> store \<Rightarrow> bool \<times> store" where
  "storage_deleteAttachment i db =
     (let result = filter (\<lambda>a. aid a = i) (attachments db)
      in (length result > 0, db\<lparr>attachments := filter (\<lambda>a. aid a \<noteq> i) (attachments db)\<rparr>))"

section \<open>The REST handlers that create records\<close>

text \<open>
  A request body is a JSON object: a partial map from keys to values. A number is an
  integer (\<open>JNum\<close>) or has a fraction (\<open>JFraction\<close>); \<open>JOther\<close> is an array or an
  object. \<open>truthy\<close> is JavaScript's truthiness of \<^verbatim>\<open>req.body.userId\<close>, where \<open>None\<close>
  is a key that is not there (\<^verbatim>\<open>undefined\<close>).
\<close>

datatype json = JNull | JBool bool | JNum int | JFraction | JStr string | JOther

type_synonym body = "string \<Rightarrow> json option"

fun truthy :: "json option \<Rightarrow> bool" where
  "truthy None = False"
| "truthy (Some JNull) = False"
| "truthy (Some (JBool b)) = b"
| "truthy (Some (JNum n)) = (n \<noteq> 0)"
| "truthy (Some JFraction) = True"
| "truthy (Some (JStr s)) = (s \<noteq> [])"
| "truthy (Some JOther) = True"

text \<open>\<^verbatim>\<open>{ ...req.body, userId: req.body.userId || 1 }\<close>\<close>

definition dataWithDefaults :: "body \<Rightarrow> body" where
  "dataWithDefaults b =
     b(''userId'' \<mapsto> (if truthy (b ''userId'') then the (b ''userId'') else JNum 1))"

text \<open>
  The insert schemas derived from the tables: a \<^verbatim>\<open>notNull\<close> text column without default
  is a required string, a nullable text column an optional string or \<^verbatim>\<open>null\<close>, an
  integer column an integer within the range of the column (32 bits, signed), optional
  when it has a default. Parsing yields the paths of the fields that fail (the
  \<^verbatim>\<open>ZodError\<close>) or the data to insert; unknown keys are dropped.
\<close>

definition int4 :: "int \<Rightarrow> bool" where
  "int4 n = (- 2147483648 \<le> n \<and> n \<le> 2147483647)"

definition required_string :: "body \<Rightarrow> string \<Rightarrow> string list" where
  "required_string b k = (case b k of Some (JStr s) \<Rightarrow> [] | _ \<Rightarrow> [k])"

definition optional_nullable_string :: "body \<Rightarrow> string \<Rightarrow> string list" where
  "optional_nullable_string b k =
     (case b k of None \<Rightarrow> [] | Some JNull \<Rightarrow> [] | Some (JStr s) \<Rightarrow> [] | _ \<Rightarrow> [k])"

definition required_number :: "body \<Rightarrow> string \<Rightarrow> string list" where
  "required_number b k =
     (case b k of Some (JNum n) \<Rightarrow> (if int4 n then [] else [k]) | _ \<Rightarrow> [k])"

definition optional_number :: "body \<Rightarrow> string \<Rightarrow> string list" where
  "optional_number b k =
     (case b k of
        None \<Rightarrow> []
      | Some (JNum n) \<Rightarrow> (if int4 n then [] else [k])
      | _ \<Rightarrow> [k])"

definition string_value :: "body \<Rightarrow> string \<Rightarrow> string" where
  "string_value b k = (case b k of Some (JStr s) \<Rightarrow> s | _ \<Rightarrow> [])"

definition field_value :: "body \<Rightarrow> string \<Rightarrow> string field" where
  "field_value b k =
     (case b k of Some (JStr s) \<Rightarrow> Given s | Some JNull \<Rightarrow> Null | _ \<Rightarrow> Absent)"

definition number_value :: "body \<Rightarrow> string \<Rightarrow> int option" where
  "number_value b k = (case b k of Some (JNum n) \<Rightarrow> Some n | _ \<Rightarrow> None)"

definition insertEstablishmentSchema :: "body \<Rightarrow> string list + InsertEstablishment" where
  "insertEstablishmentSchema b =
     (let issues = required_string b ''name'' @ required_string b ''category''
            @ required_string b ''location'' @ optional_nullable_string b ''description''
            @ optional_nullable_string b ''rating'' @ optional_nullable_string b ''coverImage''
            @ optional_number b ''userId''
      in if issues \<noteq> [] then Inl issues
         else Inr \<lparr>ins_name = string_value b ''name'',
                   ins_category = string_value b ''category'',
                   ins_location = string_value b ''location'',
                   ins_description = field_value b ''description'',
                   ins_rating = field_value b ''rating'',
                   ins_coverImage = field_value b ''coverImage'',
                   ins_userId = number_value b ''userId''\<rparr>)"

definition insertAttachmentSchema :: "body \<Rightarrow> string list + InsertAttachment" where
  "insertAttachmentSchema b =
     (let issues = required_string b ''fileName'' @ required_string b ''fileType''
            @ required_string b ''fileSize'' @ required_string b ''filePath''
            @ required_number b ''establishmentId'' @ optional_number b ''userId''
      in if issues \<noteq> [] then Inl issues
         else Inr \<lparr>ins_fileName = string_value b ''fileName'',
                   ins_fileType = string_value b ''fileType'',
                   ins_fileSize = string_value b ''fileSize'',
                   ins_filePath = string_value b ''filePath'',
                   ins_establishmentId = the (number_value b ''establishmentId''),
                   ins_att_userId = number_value b ''userId''\<rparr>)"

datatype 'a payload = Entity 'a | ErrorMessage string | ZodErrors "string list"

datatype 'a response = Response (status: nat) (payload: "'a payload")

text \<open>
  \<^verbatim>\<open>POST /api/establishments\<close> and \<^verbatim>\<open>POST /api/attachments\<close>. The parsed
  \<^verbatim>\<open>establishmentId\<close> is always a number, so the handler's answer for another type is
  never given; the store operations of this model do not fail, so neither is the 500.
\<close>

definition post_establishments ::
  "int \<Rightarrow> body \<Rightarrow> store \<Rightarrow> establishment response \<times> store" where
  "post_establishments now b db =
     (case insertEstablishmentSchema (dataWithDefaults b) of
        Inl issues \<Rightarrow> (Response 400 (ZodErrors issues), db)
      | Inr establishmentData \<Rightarrow>
          (let (newEstablishment, db') = storage_createEstablishment now establishmentData db
           in (Response 201 (Entity newEstablishment), db')))"

definition post_attachments ::
  "int \<Rightarrow> body \<Rightarrow> store \<Rightarrow> attachment response \<times> store" where
  "post_attachments now b db =
     (case insertAttachmentSchema (dataWithDefaults b) of
        Inl issues \<Rightarrow> (Response 400 (ZodErrors issues), db)
      | Inr attachmentData \<Rightarrow>
          (case storage_getEstablishment (ins_establishmentId attachmentData) db of
             None \<Rightarrow> (Response 404 (ErrorMessage ''Establishment not found''), db)
           | Some establishment \<Rightarrow>
               (let (newAttachment, db') = storage_createAttachment now attachmentData db
                in (Response 201 (Entity newAttachment), db'))))"

section \<open>Numbers denoted by rating strings\<close>

text \<open>
  The number a rating string denotes: its digits read in base ten, with an optional
  fraction after a point.
\<close>

definition digit_value :: "char \<Rightarrow> nat" where
  "digit_value c = of_char c - 48"

definition digits_value :: "string \<Rightarrow> nat" where
  "digits_value s = foldl (\<lambda>n c. 10 * n + digit_value c) 0 s"

definition rating_number :: "string \<Rightarrow> rat" where
  "rating_number s =
     (let whole = takeWhile (\<lambda>c. c \<noteq> CHR ''.'') s;
          frac = drop 1 (dropWhile (\<lambda>c. c \<noteq> CHR ''.'') s)
      in of_nat (digits_value whole) + of_nat (digits_value frac) / 10 ^ length frac)"

section \<open>Example data\<close>

text \<open>Filters that name one field only, and rows that differ in the fields queried.\<close>

definition category_filter :: "string option \<Rightarrow> filters" where
  "category_filter c = \<lparr>f_category = c, f_location = None, f_rating = None\<rparr>"

definition location_filter :: "string option \<Rightarrow> filters" where
  "location_filter l = \<lparr>f_category = None, f_location = l, f_rating = None\<rparr>"

definition rating_filter :: "string option \<Rightarrow> filters" where
  "rating_filter r = \<lparr>f_category = None, f_location = None, f_rating = r\<rparr>"

definition rated :: "int \<Rightarrow> string \<Rightarrow> string \<Rightarrow> string option \<Rightarrow> establishment" where
  "rated i n c r =
     \<lparr>eid = i, name = n, category = c, location = ''Downtown'', description = None,
      rating = r, coverImage = None, userId = 1, createdAt = Some (100 * i)\<rparr>"

text \<open>The establishments A and B of the scenario.\<close>

definition estA :: establishment where
  "estA = rated 1 ''A'' ''Restaurant'' (Some ''5'')"

definition estB :: establishment where
  "estB = rated 2 ''B'' ''Retail'' (Some ''3'')"

text \<open>A third establishment, and filters on category and rating together.\<close>

definition estC :: establishment where
  "estC = rated 3 ''C'' ''Retail'' (Some ''4.5'')"

definition retail_4plus :: filters where
  "retail_4plus =
     \<lparr>f_category = Some ''Retail'', f_location = None, f_rating = Some ''4+ stars''\<rparr>"

definition scenario_filters :: filters where
  "scenario_filters =
     \<lparr>f_category = Some ''All categories'', f_location = None, f_rating = Some ''4+ stars''\<rparr>"

text \<open>An establishment without a rating.\<close>

definition unrated :: establishment where
  "unrated = rated 7 ''Kiosk'' ''Retail'' None"

text \<open>Two establishments with the same name.\<close>

definition twin1 :: establishment where
  "twin1 = rated 1 ''Cafe'' ''Restaurant'' (Some ''5'')"

definition twin2 :: establishment where
  "twin2 = rated 2 ''Cafe'' ''Retail'' (Some ''4'')"

text \<open>The sort labels for which the relational storage picks an ordering.\<close>

definition recognised :: "string list" where
  "recognised =
     [''Newest first'', ''createdAt'', ''Highest rated'', ''Name A-Z'', ''Name Z-A'']"

text \<open>
  A received row and a document without description, cover image and rating, and a
  received row as the server sends it, its timestamp a string.
\<close>

definition bare_row :: json_establishment where
  "bare_row =
     \<lparr>j_id = 7, j_name = ''Kiosk'', j_category = ''Retail'', j_location = ''Downtown'',
      j_description = None, j_rating = None, j_coverImage = None, j_userId = 1,
      j_createdAt = None\<rparr>"

definition sent_row :: json_establishment where
  "sent_row = bare_row\<lparr>j_createdAt := Some (DateString ''2024-05-01T10:00:00.000Z'')\<rparr>"

definition bare_doc :: document where
  "bare_doc =
     \<lparr>doc_id = ''k7'', d_name = ''Kiosk'', d_category = ''Retail'',
      d_location = ''Downtown'', d_description = None, d_rating = Absent,
      d_coverImage = None, d_userId = None,
      d_createdAt = Given \<lparr>seconds = 12, nanoseconds = 345000000\<rparr>\<rparr>"

text \<open>
  An instance of \<open>toDate\<close> for the examples. On a timestamp of whole milliseconds, as
  those of the examples are, \<^verbatim>\<open>Timestamp.toDate\<close> gives
  \<^verbatim>\<open>seconds * 1000 + nanoseconds / 1000000\<close> exactly; no statement below relies on its
  value at another timestamp.
\<close>

definition whole_millis :: "Timestamp \<Rightarrow> int" where
  "whole_millis t = seconds t * 1000 + nanoseconds t div 1000000"

text \<open>Complete arguments for the two creating adapter functions.\<close>

definition kiosk_data :: establishment_data where
  "kiosk_data =
     \<lparr>data_name = Some ''Kiosk'', data_category = Some ''Retail'',
      data_location = Some ''Downtown''\<rparr>"

definition menu_data :: attachment_data where
  "menu_data =
     \<lparr>data_fileName = ''menu.pdf'', data_fileType = ''application/pdf'',
      data_fileSize = ''2.35 MB'', data_filePath = ''/files/menu.pdf'',
      data_establishmentId = ''1'', data_userId = ''1''\<rparr>"

text \<open>A store with two establishments and three attachments.\<close>

definition file_of :: "int \<Rightarrow> int \<Rightarrow> attachment" where
  "file_of i e =
     \<lparr>aid = i, fileName = ''menu.pdf'', fileType = ''application/pdf'',
      fileSize = ''2.35 MB'', filePath = ''/files/menu.pdf'', establishmentId = e,
      att_userId = 1, uploadDate = Some 0\<rparr>"

definition small_store :: store where
  "small_store =
     \<lparr>establishments = [estA, estB],
      attachments = [file_of 10 1, file_of 11 2, file_of 12 1],
      next_establishment_id = 3, next_attachment_id = 13\<rparr>"

text \<open>
  Request bodies: an attachment with the establishment identifier and user identifier
  given as arguments, an establishment with the user identifier given, and a body that
  holds an establishment identifier only.
\<close>

definition menu_body :: "json option \<Rightarrow> json option \<Rightarrow> body" where
  "menu_body e u = (\<lambda>k.
     if k = ''fileName'' then Some (JStr ''menu.pdf'')
     else if k = ''fileType'' then Some (JStr ''application/pdf'')
     else if k = ''fileSize'' then Some (JStr ''2.35 MB'')
     else if k = ''filePath'' then Some (JStr ''/files/menu.pdf'')
     else if k = ''establishmentId'' then e
     else if k = ''userId'' then u
     else None)"

definition kiosk_body :: "json option \<Rightarrow> body" where
  "kiosk_body u = (\<lambda>k.
     if k = ''name'' then Some (JStr ''Kiosk'')
     else if k = ''category'' then Some (JStr ''Retail'')
     else if k = ''location'' then Some (JStr ''Downtown'')
     else if k = ''userId'' then u
     else None)"

definition only_establishmentId :: "int \<Rightarrow> body" where
  "only_establishmentId n = (\<lambda>k. if k = ''establishmentId'' then Some (JNum n) else None)"

section \<open>The same establishment in both stores\<close>

text \<open>
  To compare the two engines, a row of the relational table is held as a document: the
  same name, category, location and rating, \<^verbatim>\<open>NULL\<close> as \<^verbatim>\<open>null\<close>, the creation time in
  milliseconds as the timestamp of that instant, the identifiers as their digits.
\<close>

definition timestamp_of :: "int \<Rightarrow> Timestamp" where
  "timestamp_of t = \<lparr>seconds = t div 1000, nanoseconds = (t mod 1000) * 1000000\<rparr>"

definition null_or :: "'a option \<Rightarrow> 'a field" where
  "null_or x = (case x of None \<Rightarrow> Null | Some v \<Rightarrow> Given v)"

definition as_document :: "establishment \<Rightarrow> document" where
  "as_document e =
     \<lparr>doc_id = toString (eid e), d_name = name e, d_category = category e,
      d_location = location e, d_description = description e,
      d_rating = null_or (rating e), d_coverImage = coverImage e,
      d_userId = Some (toString (userId e)),
      d_createdAt = null_or (map_option timestamp_of (createdAt e))\<rparr>"

text \<open>The column of the row is not \<^verbatim>\<open>NULL\<close>.\<close>

fun not_null :: "column \<Rightarrow> establishment \<Rightarrow> bool" where
  "not_null ColRating e = (rating e \<noteq> None)"
| "not_null ColCreatedAt e = (createdAt e \<noteq> None)"
| "not_null c e = True"

text \<open>The column an ordering sorts by.\<close>

fun ordering_column :: "ordering \<Rightarrow> column" where
  "ordering_column (Asc c) = c"
| "ordering_column (Desc c) = c"

section \<open>Properties of query evaluation\<close>

lemma run_query_is_result: "is_result tbl q (run_query tbl q)"
proof (cases "q_orderBy q")
  case None
  then show ?thesis by (simp add: is_result_def run_query_def)
next
  case (Some od)
  then show ?thesis
    by (cases od) (simp_all add: is_result_def run_query_def rev_map [symmetric])
qed

lemma is_result_set:
  assumes "is_result tbl q r"
  shows "set r = {e \<in> set tbl. where_holds (q_where q) e}"
proof -
  from assms have "mset r = mset (filter (where_holds (q_where q)) tbl)"
    by (simp add: is_result_def)
  then have "set r = set (filter (where_holds (q_where q)) tbl)"
    by (rule mset_eq_setD)
  then show ?thesis by auto
qed

lemma query_where_holds:
  "where_holds (q_where (getEstablishments_query fo s)) e =
     (\<forall>c \<in> set (conditions fo). holds c e)"
proof (cases "conditions fo")
  case Nil
  then show ?thesis by (simp add: getEstablishments_query_def where_holds_def)
next
  case (Cons c cs)
  then show ?thesis
    by (cases cs) (simp_all add: getEstablishments_query_def where_holds_def)
qed

lemma query_orderBy:
  "q_orderBy (getEstablishments_query fo s) = sort_ordering (sortBy_default s)"
  by (simp add: getEstablishments_query_def Let_def)

lemma storage_getEstablishments_set:
  "storage_getEstablishments tbl fo s r \<Longrightarrow>
     set r = {e \<in> set tbl. \<forall>c \<in> set (conditions fo). holds c e}"
  by (simp add: storage_getEstablishments_def is_result_set query_where_holds)

lemma storage_getEstablishments_returns:
  "storage_getEstablishments tbl fo s (run_query tbl (getEstablishments_query fo s))"
  by (simp add: storage_getEstablishments_def run_query_is_result)

lemma sorted_same_mset_eq:
  fixes xs ys :: "('a::linorder) list"
  assumes "sorted xs" "sorted ys" "mset xs = mset ys"
  shows "xs = ys"
proof -
  have "sort ys = xs" using assms(3,1) by (rule properties_for_sort)
  moreover have "sort ys = ys" using assms(2) by (rule sorted_sort_id)
  ultimately show ?thesis by simp
qed

lemma same_keys_same_rows:
  assumes "mset xs = mset ys" "map f xs = map f ys" "distinct (map f xs)"
  shows "xs = ys"
proof -
  have "set xs = set ys" using assms(1) by (rule mset_eq_setD)
  moreover have "inj_on f (set xs)" using assms(3) by (simp add: distinct_map)
  ultimately have "inj_on f (set xs \<union> set ys)" by simp
  then show ?thesis using assms(2) by (simp add: inj_on_map_eq_map)
qed

lemma asc_desc_keys:
  assumes "is_result tbl q1 r1" "is_result tbl q2 r2"
      and "q_where q1 = q_where q2"
      and "q_orderBy q1 = Some (Asc c)" "q_orderBy q2 = Some (Desc c)"
  shows "map (order_key c) r1 = rev (map (order_key c) r2)"
proof -
  have "mset r1 = mset r2" using assms(1-3) by (simp add: is_result_def)
  then have "image_mset (order_key c) (mset r1) = image_mset (order_key c) (mset r2)"
    by (rule arg_cong)
  then have "mset (map (order_key c) r1) = mset (rev (map (order_key c) r2))"
    by simp
  moreover have "sorted (map (order_key c) r1)"
    using assms(1,4) by (simp add: is_result_def)
  moreover have "sorted (rev (map (order_key c) r2))"
    using assms(2,5) by (simp add: is_result_def)
  ultimately show ?thesis by (simp add: sorted_same_mset_eq)
qed

lemma rating_numbers:
  "rating_number ''5'' = 5" "rating_number ''4.5'' = 9/2" "rating_number ''4'' = 4"
  "rating_number ''3.5'' = 7/2" "rating_number ''3'' = 3" "rating_number ''2.5'' = 5/2"
  "rating_number ''2'' = 2"
  by (simp_all add: rating_number_def digits_value_def digit_value_def)


lemma rating_only_conditions:
  "conditions (Some (rating_filter rf)) = rating_conditions (rating_filter rf)"
  by (simp add: conditions_def rating_filter_def category_conditions_def location_conditions_def truthy_str_def)

lemma enumerated_ge4:
  assumes "x \<in> set RATING_OPTIONS"
  shows "(''4'' \<le> x) = (x \<in> {''4'', ''4.5'', ''5''})"
proof -
  from assms consider "x = ''5''" | "x = ''4.5''" | "x = ''4''" | "x = ''3.5''"
    | "x = ''3''" | "x = ''2.5''" | "x = ''2''"
    by (auto simp add: RATING_OPTIONS_def)
  then show ?thesis by cases simp_all
qed

lemma enumerated_ge3:
  assumes "x \<in> set RATING_OPTIONS"
  shows "(''3'' \<le> x) = (x \<in> {''3'', ''3.5'', ''4'', ''4.5'', ''5''})"
proof -
  from assms consider "x = ''5''" | "x = ''4.5''" | "x = ''4''" | "x = ''3.5''"
    | "x = ''3''" | "x = ''2.5''" | "x = ''2''"
    by (auto simp add: RATING_OPTIONS_def)
  then show ?thesis by cases simp_all
qed

lemma rating_at_least_enumerated:
  assumes "\<forall>x. rating e = Some x \<longrightarrow> x \<in> set RATING_OPTIONS"
  shows "(\<exists>x. rating e = Some x \<and> ''4'' \<le> x) = (rating e \<in> {Some ''4'', Some ''4.5'', Some ''5''})"
    and "(\<exists>x. rating e = Some x \<and> ''3'' \<le> x) =
           (rating e \<in> {Some ''3'', Some ''3.5'', Some ''4'', Some ''4.5'', Some ''5''})"
proof -
  show "(\<exists>x. rating e = Some x \<and> ''4'' \<le> x) = (rating e \<in> {Some ''4'', Some ''4.5'', Some ''5''})"
  proof (cases "rating e")
    case None
    then show ?thesis by simp
  next
    case (Some x)
    with assms have "x \<in> set RATING_OPTIONS" by simp
    from enumerated_ge4 [OF this] Some show ?thesis by simp
  qed
  show "(\<exists>x. rating e = Some x \<and> ''3'' \<le> x) =
           (rating e \<in> {Some ''3'', Some ''3.5'', Some ''4'', Some ''4.5'', Some ''5''})"
  proof (cases "rating e")
    case None
    then show ?thesis by simp
  next
    case (Some x)
    with assms have "x \<in> set RATING_OPTIONS" by simp
    from enumerated_ge3 [OF this] Some show ?thesis by simp
  qed
qed

lemma select_enumerated:
  assumes "\<forall>e \<in> set tbl. \<forall>x. rating e = Some x \<longrightarrow> x \<in> set RATING_OPTIONS"
  shows "{e \<in> set tbl. \<exists>x. rating e = Some x \<and> ''4'' \<le> x} =
           {e \<in> set tbl. rating e \<in> {Some ''4'', Some ''4.5'', Some ''5''}}"
    and "{e \<in> set tbl. \<exists>x. rating e = Some x \<and> ''3'' \<le> x} =
           {e \<in> set tbl. rating e \<in> {Some ''3'', Some ''3.5'', Some ''4'', Some ''4.5'', Some ''5''}}"
proof -
  have enum: "\<forall>x. rating e = Some x \<longrightarrow> x \<in> set RATING_OPTIONS" if "e \<in> set tbl" for e
    using assms that by (rule bspec)
  show "{e \<in> set tbl. \<exists>x. rating e = Some x \<and> ''4'' \<le> x} =
           {e \<in> set tbl. rating e \<in> {Some ''4'', Some ''4.5'', Some ''5''}}"
  proof (rule Collect_cong, rule conj_cong [OF refl])
    fix e assume "e \<in> set tbl"
    then show "(\<exists>x. rating e = Some x \<and> ''4'' \<le> x) =
        (rating e \<in> {Some ''4'', Some ''4.5'', Some ''5''})"
      by (rule rating_at_least_enumerated(1) [OF enum])
  qed
  show "{e \<in> set tbl. \<exists>x. rating e = Some x \<and> ''3'' \<le> x} =
           {e \<in> set tbl. rating e \<in> {Some ''3'', Some ''3.5'', Some ''4'', Some ''4.5'', Some ''5''}}"
  proof (rule Collect_cong, rule conj_cong [OF refl])
    fix e assume "e \<in> set tbl"
    then show "(\<exists>x. rating e = Some x \<and> ''3'' \<le> x) =
        (rating e \<in> {Some ''3'', Some ''3.5'', Some ''4'', Some ''4.5'', Some ''5''})"
      by (rule rating_at_least_enumerated(2) [OF enum])
  qed
qed

lemma rating_conditions_cases:
  "rating_conditions (rating_filter (Some ''5 stars'')) = [Eq ColRating ''5'']"
  "rating_conditions (rating_filter (Some ''4+ stars'')) = [Gte ColRating ''4'']"
  "rating_conditions (rating_filter (Some ''3+ stars'')) = [Gte ColRating ''3'']"
  "rf \<notin> {Some ''5 stars'', Some ''4+ stars'', Some ''3+ stars''} \<Longrightarrow>
     rating_conditions (rating_filter rf) = []"
  by (simp_all add: rating_conditions_def rating_filter_def truthy_str_def)

lemma holds_rating:
  "holds (Eq ColRating v) e = (rating e = Some v)"
  "holds (Gte ColRating v) e = (\<exists>x. rating e = Some x \<and> v \<le> x)"
  by (cases "rating e"; auto)+

section \<open>Rating strings and their numbers\<close>

text \<open>
  Claim C9. Over the seven enumerated rating strings, the lexicographic order of the
  strings is the order of the numbers they denote: for every pair \<open>a\<close>, \<open>b\<close> of them,
  \<open>a \<le> b\<close> as strings exactly when \<open>a \<le> b\<close> as numbers. So the comparison made by a
  \<^verbatim>\<open>gte\<close> condition on the rating of a row, and the comparison of the keys that
  "Highest rated" sorts by, agree with the numeric comparison.
\<close>

theorem rating_order_coincides:
  "\<forall>a \<in> set RATING_OPTIONS. \<forall>b \<in> set RATING_OPTIONS.
     (a \<le> b) = (rating_number a \<le> rating_number b) \<and>
     (rating e = Some b \<longrightarrow> holds (Gte ColRating a) e = (rating_number a \<le> rating_number b)) \<and>
     (rating e1 = Some a \<and> rating e2 = Some b \<longrightarrow>
        (order_key ColRating e1 \<le> order_key ColRating e2) = (rating_number a \<le> rating_number b))"
  by (simp add: RATING_OPTIONS_def rating_numbers)

theorem rating_order_coincides_witness:
  "''4'' \<in> set RATING_OPTIONS \<and> ''4.5'' \<in> set RATING_OPTIONS \<and> ''4'' \<le> ''4.5'' \<and>
   rating_number ''4'' \<le> rating_number ''4.5'' \<and>
   holds (Gte ColRating ''4'') (rated 1 ''A'' ''Restaurant'' (Some ''4.5''))"
  using rating_order_coincides [rule_format, of "''4''" "''4.5''" "rated 1 ''A'' ''Restaurant'' (Some ''4.5'')"]
  by (simp add: RATING_OPTIONS_def rated_def)

lemma rating_conditions_only_rating:
  "rating_conditions f = rating_conditions (rating_filter (f_rating f))"
  by (simp add: rating_conditions_def rating_filter_def)

lemma conditions_without_rating:
  "conditions (Some (f\<lparr>f_rating := None\<rparr>)) = category_conditions f @ location_conditions f"
  by (simp add: conditions_def category_conditions_def location_conditions_def
      rating_conditions_def truthy_str_def)

lemma rating_narrows:
  assumes "storage_getEstablishments tbl (Some f) s r"
    and "storage_getEstablishments tbl (Some (f\<lparr>f_rating := None\<rparr>)) s0 r0"
  shows "set r =
    {e \<in> set r0. \<forall>c \<in> set (rating_conditions (rating_filter (f_rating f))). holds c e}"
proof -
  have "set r = {e \<in> set tbl. \<forall>c \<in> set (conditions (Some f)). holds c e}"
    using assms(1) by (rule storage_getEstablishments_set)
  moreover have "set r0 =
      {e \<in> set tbl. \<forall>c \<in> set (category_conditions f @ location_conditions f). holds c e}"
    using storage_getEstablishments_set [OF assms(2)] by (simp only: conditions_without_rating)
  moreover have "conditions (Some f) =
      (category_conditions f @ location_conditions f) @
      rating_conditions (rating_filter (f_rating f))"
    by (simp add: conditions_def rating_conditions_only_rating [symmetric])
  ultimately show ?thesis by auto
qed

section \<open>The rating filter\<close>

text \<open>
  Claim C1, as amended. In every query, the rating filter narrows the answer \<open>r0\<close>
  obtained without it: "5 stars" to the rows whose rating is the string "5"; "4+ stars"
  to those whose rating is at least "4" in the order of strings, and "3+ stars" to those
  whose rating is at least "3"; when every rating in \<open>r0\<close> is one of the seven
  enumerated values, these are the rows rated 4, 4.5 or 5, and 3, 3.5, 4, 4.5 or 5. Any
  other value of the rating filter narrows nothing.
\<close>

theorem rating_filter_buckets:
  assumes "storage_getEstablishments tbl (Some f) sortBy r"
    and "storage_getEstablishments tbl (Some (f\<lparr>f_rating := None\<rparr>)) sortBy0 r0"
  shows "(f_rating f = Some ''5 stars'' \<longrightarrow> set r = {e \<in> set r0. rating e = Some ''5''}) \<and>
         (f_rating f = Some ''4+ stars'' \<longrightarrow>
            set r = {e \<in> set r0. \<exists>x. rating e = Some x \<and> ''4'' \<le> x}) \<and>
         (f_rating f = Some ''3+ stars'' \<longrightarrow>
            set r = {e \<in> set r0. \<exists>x. rating e = Some x \<and> ''3'' \<le> x}) \<and>
         (f_rating f = Some ''4+ stars'' \<and> (\<forall>e \<in> set r0. \<forall>x. rating e = Some x \<longrightarrow> x \<in> set RATING_OPTIONS) \<longrightarrow>
            set r = {e \<in> set r0. rating e \<in> {Some ''4'', Some ''4.5'', Some ''5''}}) \<and>
         (f_rating f = Some ''3+ stars'' \<and> (\<forall>e \<in> set r0. \<forall>x. rating e = Some x \<longrightarrow> x \<in> set RATING_OPTIONS) \<longrightarrow>
            set r = {e \<in> set r0. rating e \<in> {Some ''3'', Some ''3.5'', Some ''4'', Some ''4.5'', Some ''5''}}) \<and>
         (f_rating f \<notin> {Some ''5 stars'', Some ''4+ stars'', Some ''3+ stars''} \<longrightarrow> set r = set r0)"
proof -
  have sel: "set r =
      {e \<in> set r0. \<forall>c \<in> set (rating_conditions (rating_filter (f_rating f))). holds c e}"
    using assms by (rule rating_narrows)
  have five: "set r = {e \<in> set r0. rating e = Some ''5''}" if "f_rating f = Some ''5 stars''"
    using sel unfolding that rating_conditions_cases by (simp add: holds_rating del: holds.simps)
  have four: "set r = {e \<in> set r0. \<exists>x. rating e = Some x \<and> ''4'' \<le> x}"
    if "f_rating f = Some ''4+ stars''"
    using sel unfolding that rating_conditions_cases by (simp add: holds_rating del: holds.simps)
  have three: "set r = {e \<in> set r0. \<exists>x. rating e = Some x \<and> ''3'' \<le> x}"
    if "f_rating f = Some ''3+ stars''"
    using sel unfolding that rating_conditions_cases by (simp add: holds_rating del: holds.simps)
  have other: "set r = set r0"
    if "f_rating f \<notin> {Some ''5 stars'', Some ''4+ stars'', Some ''3+ stars''}"
    using sel unfolding rating_conditions_cases(4) [OF that] by simp
  show ?thesis
  proof (intro conjI impI)
    assume "f_rating f = Some ''5 stars''"
    then show "set r = {e \<in> set r0. rating e = Some ''5''}" by (rule five)
  next
    assume "f_rating f = Some ''4+ stars''"
    then show "set r = {e \<in> set r0. \<exists>x. rating e = Some x \<and> ''4'' \<le> x}" by (rule four)
  next
    assume "f_rating f = Some ''3+ stars''"
    then show "set r = {e \<in> set r0. \<exists>x. rating e = Some x \<and> ''3'' \<le> x}" by (rule three)
  next
    assume a: "f_rating f = Some ''4+ stars'' \<and>
      (\<forall>e \<in> set r0. \<forall>x. rating e = Some x \<longrightarrow> x \<in> set RATING_OPTIONS)"
    from a have "set r = {e \<in> set r0. \<exists>x. rating e = Some x \<and> ''4'' \<le> x}"
      by (intro four) (rule conjunct1)
    also from a have "\<dots> = {e \<in> set r0. rating e \<in> {Some ''4'', Some ''4.5'', Some ''5''}}"
      by (intro select_enumerated(1)) (rule conjunct2)
    finally show "set r = {e \<in> set r0. rating e \<in> {Some ''4'', Some ''4.5'', Some ''5''}}" .
  next
    assume a: "f_rating f = Some ''3+ stars'' \<and>
      (\<forall>e \<in> set r0. \<forall>x. rating e = Some x \<longrightarrow> x \<in> set RATING_OPTIONS)"
    from a have "set r = {e \<in> set r0. \<exists>x. rating e = Some x \<and> ''3'' \<le> x}"
      by (intro three) (rule conjunct1)
    also from a have "\<dots> =
        {e \<in> set r0. rating e \<in> {Some ''3'', Some ''3.5'', Some ''4'', Some ''4.5'', Some ''5''}}"
      by (intro select_enumerated(2)) (rule conjunct2)
    finally show "set r =
        {e \<in> set r0. rating e \<in> {Some ''3'', Some ''3.5'', Some ''4'', Some ''4.5'', Some ''5''}}" .
  next
    assume "f_rating f \<notin> {Some ''5 stars'', Some ''4+ stars'', Some ''3+ stars''}"
    then show "set r = set r0" by (rule other)
  qed
qed

theorem rating_filter_buckets_witness:
  "storage_getEstablishments [estA, estB] (Some (rating_filter (Some ''4+ stars''))) None [estA] \<and>
   storage_getEstablishments [estA, estB] (Some (rating_filter None)) (Some ''Name A-Z'')
     [estA, estB] \<and>
   set [estA] = {e \<in> set [estA, estB]. rating e \<in> {Some ''4'', Some ''4.5'', Some ''5''}}"
proof -
  have r0: "storage_getEstablishments [estA, estB]
      (Some ((rating_filter (Some ''4+ stars''))\<lparr>f_rating := None\<rparr>)) (Some ''Name A-Z'')
      [estA, estB]"
    by (simp add: storage_getEstablishments_def is_result_def getEstablishments_query_def
        conditions_def category_conditions_def location_conditions_def
        rating_conditions_def rating_filter_def truthy_str_def where_holds_def
        sort_ordering_def sortBy_default_def estA_def estB_def rated_def)
  have f: "f_rating (rating_filter (Some ''4+ stars'')) = Some ''4+ stars''"
    by (simp add: rating_filter_def)
  have r: "storage_getEstablishments [estA, estB]
      (Some (rating_filter (Some ''4+ stars''))) None [estA]"
    by (simp add: storage_getEstablishments_def is_result_def getEstablishments_query_def
        rating_only_conditions rating_conditions_cases where_holds_def sort_ordering_def
        sortBy_default_def estA_def estB_def rated_def)
  have enum: "\<forall>e \<in> set [estA, estB]. \<forall>x. rating e = Some x \<longrightarrow> x \<in> set RATING_OPTIONS"
    by (simp add: estA_def estB_def rated_def RATING_OPTIONS_def)
  have "set [estA] = {e \<in> set [estA, estB]. rating e \<in> {Some ''4'', Some ''4.5'', Some ''5''}}"
    by (rule rating_filter_buckets [OF r r0, THEN conjunct2, THEN conjunct2, THEN conjunct2,
          THEN conjunct1, THEN mp]) (intro conjI f enum)
  with r r0 show ?thesis by (simp add: rating_filter_def)
qed

text \<open>
  The rating column is free text, and the insert schema accepts any string. A row rated
  "4.7" is selected by "4+ stars", and its rating is none of 4, 4.5 and 5.
\<close>

theorem rating_filter_buckets_counterexample:
  "storage_getEstablishments [rated 3 ''C'' ''Retail'' (Some ''4.7'')]
     (Some (rating_filter (Some ''4+ stars''))) None [rated 3 ''C'' ''Retail'' (Some ''4.7'')] \<and>
   rating (rated 3 ''C'' ''Retail'' (Some ''4.7'')) \<notin> {Some ''4'', Some ''4.5'', Some ''5''}"
  by (simp add: storage_getEstablishments_def is_result_def getEstablishments_query_def
      rating_only_conditions rating_conditions_cases where_holds_def sort_ordering_def
      sortBy_default_def rated_def)

lemma single_field_conditions:
  "conditions (Some (category_filter (f_category f))) = category_conditions f"
  "conditions (Some (location_filter (f_location f))) = location_conditions f"
  "conditions (Some (rating_filter (f_rating f))) = rating_conditions f"
  by (simp_all add: conditions_def category_filter_def location_filter_def rating_filter_def
      category_conditions_def location_conditions_def rating_conditions_def truthy_str_def)

lemma sentinel_conditions:
  "c \<in> {None, Some [], Some ''All categories''} \<Longrightarrow>
     conditions (Some (category_filter c)) = []"
  "l \<in> {None, Some [], Some ''All locations''} \<Longrightarrow>
     conditions (Some (location_filter l)) = []"
  "x \<in> {None, Some [], Some ''All ratings''} \<Longrightarrow>
     conditions (Some (rating_filter x)) = []"
  by (auto simp add: conditions_def category_filter_def location_filter_def rating_filter_def
      category_conditions_def location_conditions_def rating_conditions_def truthy_str_def)

lemma scenario_conditions: "conditions (Some scenario_filters) = [Gte ColRating ''4'']"
  by (simp add: conditions_def scenario_filters_def
      category_conditions_def location_conditions_def rating_conditions_def truthy_str_def)

lemma scenario_selected:
  "filter (where_holds (q_where (getEstablishments_query (Some scenario_filters) s))) [estA, estB] = [estA]"
  by (simp add: query_where_holds scenario_conditions estA_def estB_def rated_def)

lemma ordered_singleton: "ordered od [x] [x]"
proof (cases od)
  case None
  then show ?thesis by simp
next
  case (Some a)
  then show ?thesis by (cases a) simp_all
qed

lemma is_result_singleton:
  assumes "filter (where_holds (q_where q)) tbl = [x]"
  shows "is_result tbl q r = (r = [x])"
proof
  assume "is_result tbl q r"
  then have "mset r = mset [x]" by (simp add: is_result_def assms)
  then show "r = [x]" by simp
next
  assume "r = [x]"
  then show "is_result tbl q r" by (simp add: is_result_def assms ordered_singleton)
qed

lemma scenario_result:
  "storage_getEstablishments [estA, estB] (Some scenario_filters) s r = (r = [estA])"
  unfolding storage_getEstablishments_def by (rule is_result_singleton [OF scenario_selected])

lemma active_conditions:
  "c \<noteq> [] \<Longrightarrow> c \<noteq> ''All categories'' \<Longrightarrow>
     conditions (Some (category_filter (Some c))) = [Eq ColCategory c]"
  "l \<noteq> [] \<Longrightarrow> l \<noteq> ''All locations'' \<Longrightarrow>
     conditions (Some (location_filter (Some l))) = [Eq ColLocation l]"
  by (simp_all add: conditions_def category_filter_def location_filter_def
      category_conditions_def location_conditions_def rating_conditions_def truthy_str_def)

lemma single_condition_set:
  assumes "storage_getEstablishments tbl fo s r" and "conditions fo = [c]"
  shows "set r = {e \<in> set tbl. holds c e}"
  using storage_getEstablishments_set [OF assms(1)] by (simp add: assms(2))

lemma no_condition_set:
  assumes "storage_getEstablishments tbl fo s r" and "conditions fo = []"
  shows "set r = set tbl"
  using storage_getEstablishments_set [OF assms(1)] by (simp add: assms(2))

lemma holds_text:
  "holds (Eq ColCategory v) e = (category e = v)"
  "holds (Eq ColLocation v) e = (location e = v)"
  by simp_all

section \<open>Composition of the filters\<close>

text \<open>
  Claim C2. \<^verbatim>\<open>getEstablishments\<close> returns, for every table, filters and sort label; the
  set of rows it returns under the filters \<open>f\<close> is the intersection of the sets returned
  under the category filter of \<open>f\<close> alone, its location filter alone and its rating
  filter alone (whatever their sort labels). Without filters, and under a single filter
  that is absent, empty or the sentinel "All categories", "All locations" or
  "All ratings", every row of the table is returned. Under any other category alone the
  rows of that category are returned, under any other location alone the rows at that
  location, and under a rating bucket alone the rows it admits. In the scenario (A a
  restaurant rated 5, B a retail shop rated 3, category "All categories" and rating
  "4+ stars") the answer is A alone.
\<close>

theorem filters_intersection:
  "(\<exists>r. storage_getEstablishments tbl fo s r) \<and>
   (\<forall>r rc rl rr. storage_getEstablishments tbl (Some f) s r \<and>
      storage_getEstablishments tbl (Some (category_filter (f_category f))) s1 rc \<and>
      storage_getEstablishments tbl (Some (location_filter (f_location f))) s2 rl \<and>
      storage_getEstablishments tbl (Some (rating_filter (f_rating f))) s3 rr \<longrightarrow>
      set r = set rc \<inter> set rl \<inter> set rr) \<and>
   (\<forall>r. storage_getEstablishments tbl None s r \<longrightarrow> set r = set tbl) \<and>
   (\<forall>r c. c \<in> {None, Some [], Some ''All categories''} \<and>
      storage_getEstablishments tbl (Some (category_filter c)) s r \<longrightarrow> set r = set tbl) \<and>
   (\<forall>r l. l \<in> {None, Some [], Some ''All locations''} \<and>
      storage_getEstablishments tbl (Some (location_filter l)) s r \<longrightarrow> set r = set tbl) \<and>
   (\<forall>r x. x \<in> {None, Some [], Some ''All ratings''} \<and>
      storage_getEstablishments tbl (Some (rating_filter x)) s r \<longrightarrow> set r = set tbl) \<and>
   (\<forall>r c. c \<noteq> [] \<and> c \<noteq> ''All categories'' \<and>
      storage_getEstablishments tbl (Some (category_filter (Some c))) s r \<longrightarrow>
      set r = {e \<in> set tbl. category e = c}) \<and>
   (\<forall>r l. l \<noteq> [] \<and> l \<noteq> ''All locations'' \<and>
      storage_getEstablishments tbl (Some (location_filter (Some l))) s r \<longrightarrow>
      set r = {e \<in> set tbl. location e = l}) \<and>
   (\<forall>r. storage_getEstablishments tbl (Some (rating_filter (Some ''5 stars''))) s r \<longrightarrow>
      set r = {e \<in> set tbl. rating e = Some ''5''}) \<and>
   (\<forall>r. storage_getEstablishments tbl (Some (rating_filter (Some ''4+ stars''))) s r \<longrightarrow>
      set r = {e \<in> set tbl. \<exists>x. rating e = Some x \<and> ''4'' \<le> x}) \<and>
   (\<forall>r. storage_getEstablishments tbl (Some (rating_filter (Some ''3+ stars''))) s r \<longrightarrow>
      set r = {e \<in> set tbl. \<exists>x. rating e = Some x \<and> ''3'' \<le> x}) \<and>
   (\<forall>r. storage_getEstablishments [estA, estB] (Some scenario_filters) s r = (r = [estA]))"
proof (intro conjI allI impI)
  show "\<exists>r. storage_getEstablishments tbl fo s r"
    using storage_getEstablishments_returns by (rule exI)
next
  fix r rc rl rr
  assume a: "storage_getEstablishments tbl (Some f) s r \<and>
      storage_getEstablishments tbl (Some (category_filter (f_category f))) s1 rc \<and>
      storage_getEstablishments tbl (Some (location_filter (f_location f))) s2 rl \<and>
      storage_getEstablishments tbl (Some (rating_filter (f_rating f))) s3 rr"
  from a have all: "storage_getEstablishments tbl (Some f) s r"
    and c: "storage_getEstablishments tbl (Some (category_filter (f_category f))) s1 rc"
    and l: "storage_getEstablishments tbl (Some (location_filter (f_location f))) s2 rl"
    and x: "storage_getEstablishments tbl (Some (rating_filter (f_rating f))) s3 rr"
    by simp_all
  have "set r = {e \<in> set tbl. \<forall>c \<in> set (conditions (Some f)). holds c e}"
    using all by (rule storage_getEstablishments_set)
  moreover have "set rc = {e \<in> set tbl. \<forall>c \<in> set (category_conditions f). holds c e}"
    using storage_getEstablishments_set [OF c] by (simp only: single_field_conditions)
  moreover have "set rl = {e \<in> set tbl. \<forall>c \<in> set (location_conditions f). holds c e}"
    using storage_getEstablishments_set [OF l] by (simp only: single_field_conditions)
  moreover have "set rr = {e \<in> set tbl. \<forall>c \<in> set (rating_conditions f). holds c e}"
    using storage_getEstablishments_set [OF x] by (simp only: single_field_conditions)
  ultimately show "set r = set rc \<inter> set rl \<inter> set rr"
    by (auto simp add: conditions_def)
next
  fix r assume "storage_getEstablishments tbl None s r"
  then show "set r = set tbl"
    by (rule no_condition_set) (simp add: conditions_def)
next
  fix r c assume a: "c \<in> {None, Some [], Some ''All categories''} \<and>
      storage_getEstablishments tbl (Some (category_filter c)) s r"
  show "set r = set tbl"
    by (rule no_condition_set [OF a [THEN conjunct2]])
       (rule sentinel_conditions(1) [OF a [THEN conjunct1]])
next
  fix r l assume a: "l \<in> {None, Some [], Some ''All locations''} \<and>
      storage_getEstablishments tbl (Some (location_filter l)) s r"
  show "set r = set tbl"
    by (rule no_condition_set [OF a [THEN conjunct2]])
       (rule sentinel_conditions(2) [OF a [THEN conjunct1]])
next
  fix r x assume a: "x \<in> {None, Some [], Some ''All ratings''} \<and>
      storage_getEstablishments tbl (Some (rating_filter x)) s r"
  show "set r = set tbl"
    by (rule no_condition_set [OF a [THEN conjunct2]])
       (rule sentinel_conditions(3) [OF a [THEN conjunct1]])
next
  fix r c assume a: "c \<noteq> [] \<and> c \<noteq> ''All categories'' \<and>
      storage_getEstablishments tbl (Some (category_filter (Some c))) s r"
  have "set r = {e \<in> set tbl. holds (Eq ColCategory c) e}"
    by (rule single_condition_set [OF a [THEN conjunct2, THEN conjunct2]])
       (rule active_conditions(1) [OF a [THEN conjunct1] a [THEN conjunct2, THEN conjunct1]])
  then show "set r = {e \<in> set tbl. category e = c}"
    by (simp only: holds_text)
next
  fix r l assume a: "l \<noteq> [] \<and> l \<noteq> ''All locations'' \<and>
      storage_getEstablishments tbl (Some (location_filter (Some l))) s r"
  have "set r = {e \<in> set tbl. holds (Eq ColLocation l) e}"
    by (rule single_condition_set [OF a [THEN conjunct2, THEN conjunct2]])
       (rule active_conditions(2) [OF a [THEN conjunct1] a [THEN conjunct2, THEN conjunct1]])
  then show "set r = {e \<in> set tbl. location e = l}"
    by (simp only: holds_text)
next
  fix r assume a: "storage_getEstablishments tbl (Some (rating_filter (Some ''5 stars''))) s r"
  have "set r = {e \<in> set tbl. holds (Eq ColRating ''5'') e}"
    by (rule single_condition_set [OF a])
       (simp only: rating_only_conditions rating_conditions_cases)
  then show "set r = {e \<in> set tbl. rating e = Some ''5''}"
    by (simp only: holds_rating)
next
  fix r assume a: "storage_getEstablishments tbl (Some (rating_filter (Some ''4+ stars''))) s r"
  have "set r = {e \<in> set tbl. holds (Gte ColRating ''4'') e}"
    by (rule single_condition_set [OF a])
       (simp only: rating_only_conditions rating_conditions_cases)
  then show "set r = {e \<in> set tbl. \<exists>x. rating e = Some x \<and> ''4'' \<le> x}"
    by (simp only: holds_rating)
next
  fix r assume a: "storage_getEstablishments tbl (Some (rating_filter (Some ''3+ stars''))) s r"
  have "set r = {e \<in> set tbl. holds (Gte ColRating ''3'') e}"
    by (rule single_condition_set [OF a])
       (simp only: rating_only_conditions rating_conditions_cases)
  then show "set r = {e \<in> set tbl. \<exists>x. rating e = Some x \<and> ''3'' \<le> x}"
    by (simp only: holds_rating)
next
  fix r show "storage_getEstablishments [estA, estB] (Some scenario_filters) s r = (r = [estA])"
    by (rule scenario_result)
qed

lemma retail_4plus_conditions:
  "conditions (Some retail_4plus) = [Eq ColCategory ''Retail'', Gte ColRating ''4'']"
  "conditions (Some (category_filter (f_category retail_4plus))) = [Eq ColCategory ''Retail'']"
  "conditions (Some (location_filter (f_location retail_4plus))) = []"
  "conditions (Some (rating_filter (f_rating retail_4plus))) = [Gte ColRating ''4'']"
  by (simp_all add: conditions_def retail_4plus_def category_filter_def location_filter_def
      rating_filter_def category_conditions_def location_conditions_def
      rating_conditions_def truthy_str_def)

lemma evaluate_query:
  "storage_getEstablishments tbl fo (Some ''Name A-Z'') r =
     (mset r = mset (filter (\<lambda>e. \<forall>c \<in> set (conditions fo). holds c e) tbl) \<and>
      sorted (map (order_key ColName) r))"
proof -
  have "filter (where_holds (q_where (getEstablishments_query fo (Some ''Name A-Z'')))) tbl =
      filter (\<lambda>e. \<forall>c \<in> set (conditions fo). holds c e) tbl"
    by (rule filter_cong [OF refl]) (rule query_where_holds)
  then show ?thesis
    by (simp add: storage_getEstablishments_def is_result_def query_orderBy
        sortBy_default_def sort_ordering_def)
qed

theorem filters_intersection_witness:
  "storage_getEstablishments [estA, estB, estC] (Some retail_4plus) (Some ''Name A-Z'') [estC] \<and>
   storage_getEstablishments [estA, estB, estC]
     (Some (category_filter (Some ''Retail''))) (Some ''Name A-Z'') [estB, estC] \<and>
   storage_getEstablishments [estA, estB, estC]
     (Some (location_filter None)) (Some ''Name A-Z'') [estA, estB, estC] \<and>
   storage_getEstablishments [estA, estB, estC]
     (Some (rating_filter (Some ''4+ stars''))) (Some ''Name A-Z'') [estA, estC] \<and>
   set [estC] = set [estB, estC] \<inter> set [estA, estB, estC] \<inter> set [estA, estC] \<and>
   set [estB, estC] = {e \<in> set [estA, estB, estC]. category e = ''Retail''}"
proof -
  have r: "storage_getEstablishments [estA, estB, estC] (Some retail_4plus)
      (Some ''Name A-Z'') [estC]"
    unfolding evaluate_query retail_4plus_conditions
    by (simp add: estA_def estB_def estC_def rated_def)
  have rc: "storage_getEstablishments [estA, estB, estC]
      (Some (category_filter (f_category retail_4plus))) (Some ''Name A-Z'') [estB, estC]"
    unfolding evaluate_query retail_4plus_conditions
    by (simp add: estA_def estB_def estC_def rated_def)
  have rl: "storage_getEstablishments [estA, estB, estC]
      (Some (location_filter (f_location retail_4plus))) (Some ''Name A-Z'') [estA, estB, estC]"
    unfolding evaluate_query retail_4plus_conditions
    by (simp add: estA_def estB_def estC_def rated_def)
  have rr: "storage_getEstablishments [estA, estB, estC]
      (Some (rating_filter (f_rating retail_4plus))) (Some ''Name A-Z'') [estA, estC]"
    unfolding evaluate_query retail_4plus_conditions
    by (simp add: estA_def estB_def estC_def rated_def)
  have f: "f_category retail_4plus = Some ''Retail''" "f_location retail_4plus = None"
    "f_rating retail_4plus = Some ''4+ stars''"
    by (simp_all add: retail_4plus_def)
  have inter: "set [estC] = set [estB, estC] \<inter> set [estA, estB, estC] \<inter> set [estA, estC]"
    by (rule filters_intersection [THEN conjunct2, THEN conjunct1, rule_format,
          OF conjI [OF r conjI [OF rc conjI [OF rl rr]]]])
  have active: "''Retail'' \<noteq> [] \<and> ''Retail'' \<noteq> ''All categories'' \<and>
      storage_getEstablishments [estA, estB, estC]
        (Some (category_filter (Some ''Retail''))) (Some ''Name A-Z'') [estB, estC]"
    using rc by (simp add: f)
  have cat: "set [estB, estC] = {e \<in> set [estA, estB, estC]. category e = ''Retail''}"
    by (rule filters_intersection [THEN conjunct2, THEN conjunct2, THEN conjunct2,
          THEN conjunct2, THEN conjunct2, THEN conjunct2, THEN conjunct1, rule_format,
          OF active])
  from r rc rl rr inter cat show ?thesis by (simp only: f simp_thms)
qed

lemma name_of_key: "name e = fst (snd (order_key ColName e))"
  by simp

lemma names_of_keys: "map name r = map (fst \<circ> snd) (map (order_key ColName) r)"
  by simp

lemma asc_desc_names:
  assumes "is_result tbl q1 r1" "is_result tbl q2 r2"
      and "q_where q1 = q_where q2"
      and "q_orderBy q1 = Some (Asc ColName)" "q_orderBy q2 = Some (Desc ColName)"
  shows "map name r1 = rev (map name r2)"
    and "distinct (map name r1) \<Longrightarrow> r1 = rev r2"
proof -
  have keys: "map (order_key ColName) r1 = rev (map (order_key ColName) r2)"
    using assms by (rule asc_desc_keys)
  have "map name r1 = map (fst \<circ> snd) (map (order_key ColName) r1)"
    by (rule names_of_keys)
  also have "\<dots> = map (fst \<circ> snd) (rev (map (order_key ColName) r2))"
    by (simp only: keys)
  also have "\<dots> = rev (map name r2)"
    by (simp add: rev_map)
  finally show names: "map name r1 = rev (map name r2)" .
  assume d: "distinct (map name r1)"
  have "mset r1 = mset (rev r2)" using assms(1-3) by (simp add: is_result_def)
  moreover have "map name r1 = map name (rev r2)" using names by (simp add: rev_map)
  ultimately show "r1 = rev r2" using d by (rule same_keys_same_rows)
qed

lemma no_filter_query:
  "getEstablishments_query None (Some s) = \<lparr>q_where = None, q_orderBy = sort_ordering s\<rparr>"
  by (simp add: getEstablishments_query_def conditions_def sortBy_default_def)

lemma getDocs_success:
  "getDocs docs cs (Inr ds) =
     (mset ds = mset (selected_docs docs cs) \<and> doc_ordered (order_constraint cs) ds)"
  by (simp add: getDocs_def)

lemma run_docs_is_snapshot: "getDocs docs cs (Inr (run_docs docs cs))"
proof (cases "order_constraint cs")
  case None
  then show ?thesis by (simp add: getDocs_success run_docs_def)
next
  case (Some od)
  then show ?thesis
    by (cases od) (simp_all add: getDocs_success run_docs_def rev_map [symmetric])
qed

lemma getDocs_set:
  assumes "getDocs docs cs (Inr ds)"
  shows "set ds = {d \<in> set docs. \<forall>c \<in> set cs. matches c d}"
proof -
  from assms have "mset ds = mset (selected_docs docs cs)"
    by (simp add: getDocs_success)
  then have "set ds = set (selected_docs docs cs)"
    by (rule mset_eq_setD)
  then show ?thesis by (auto simp add: selected_docs_def)
qed

lemma order_constraint_filter_constraints:
  "order_constraint (firestore_filter_constraints fo @ ys) = order_constraint ys"
  by (cases fo) (simp_all add: firestore_filter_constraints_def)

lemma where_constraints_append:
  "where_constraints (xs @ ys) = where_constraints xs @ where_constraints ys"
  by (induction xs rule: where_constraints.induct) simp_all

lemma firestore_where:
  "where_constraints (firestore_filter_constraints fo) = conditions fo"
  by (cases fo)
     (simp_all add: firestore_filter_constraints_def conditions_def category_conditions_def
        location_conditions_def rating_conditions_def)

lemma queryConstraints_where:
  "where_constraints (queryConstraints fo s) = conditions fo"
  by (simp add: queryConstraints_def where_constraints_append firestore_where)

lemma queryConstraints_order:
  "order_constraint (queryConstraints fo s) =
     (case firestore_sort (sortBy_default s) of
        (c, DirAsc) \<Rightarrow> Some (Asc c) | (c, DirDesc) \<Rightarrow> Some (Desc c))"
  by (cases "firestore_sort (sortBy_default s)"; cases "snd (firestore_sort (sortBy_default s))")
     (simp_all add: queryConstraints_def order_constraint_filter_constraints)

lemma queryConstraints_matches:
  "(\<forall>c \<in> set (queryConstraints fo s). matches c d) =
     ((\<forall>c \<in> set (firestore_filter_constraints fo). matches c d) \<and>
      doc_field (fst (firestore_sort (sortBy_default s))) d \<noteq> None)"
  by (auto simp add: queryConstraints_def ball_Un)

lemma name_sort:
  "firestore_sort (sortBy_default (Some ''Name A-Z'')) = (ColName, DirAsc)"
  "firestore_sort (sortBy_default (Some ''Name Z-A'')) = (ColName, DirDesc)"
  by (simp_all add: firestore_sort_def sortBy_default_def)

lemma name_sort_selected:
  "selected_docs docs (queryConstraints fo (Some ''Name A-Z'')) =
     selected_docs docs (queryConstraints fo (Some ''Name Z-A''))"
  unfolding selected_docs_def queryConstraints_matches name_sort by simp

lemma d_name_of_key: "map d_name ds = map (fst \<circ> snd) (map (doc_key ColName) ds)"
  by (simp add: doc_key_def)

lemma docs_asc_desc_names:
  assumes "getDocs docs (queryConstraints fo (Some ''Name A-Z'')) (Inr d1)"
      and "getDocs docs (queryConstraints fo (Some ''Name Z-A'')) (Inr d2)"
  shows "map d_name d1 = rev (map d_name d2)"
    and "distinct (map d_name d1) \<Longrightarrow> d1 = rev d2"
proof -
  have m: "mset d1 = mset d2"
    using assms by (simp add: getDocs_success name_sort_selected)
  then have "image_mset (doc_key ColName) (mset d1) = image_mset (doc_key ColName) (mset d2)"
    by (rule arg_cong)
  then have "mset (map (doc_key ColName) d1) = mset (rev (map (doc_key ColName) d2))"
    by simp
  moreover have "sorted (map (doc_key ColName) d1)"
    using assms(1) by (simp add: getDocs_success queryConstraints_order name_sort)
  moreover have "sorted (rev (map (doc_key ColName) d2))"
    using assms(2) by (simp add: getDocs_success queryConstraints_order name_sort)
  ultimately have keys: "map (doc_key ColName) d1 = rev (map (doc_key ColName) d2)"
    by (simp add: sorted_same_mset_eq)
  have "map d_name d1 = map (fst \<circ> snd) (map (doc_key ColName) d1)"
    by (rule d_name_of_key)
  also have "\<dots> = map (fst \<circ> snd) (rev (map (doc_key ColName) d2))"
    by (simp only: keys)
  also have "\<dots> = rev (map d_name d2)"
    by (simp add: rev_map doc_key_def)
  finally show names: "map d_name d1 = rev (map d_name d2)" .
  assume d: "distinct (map d_name d1)"
  have "mset d1 = mset (rev d2)" using m by simp
  moreover have "map d_name d1 = map d_name (rev d2)" using names by (simp add: rev_map)
  ultimately show "d1 = rev d2" using d by (rule same_keys_same_rows)
qed

lemma converted_names:
  "map fb_name (map (convertDocToEstablishment td now) ds) = map d_name ds"
  by (simp add: convertDocToEstablishment_def)

lemma firestore_success:
  "(firestore_getEstablishments td now (Inr ds) = Inr xs) =
     (xs = map (convertDocToEstablishment td now) ds)"
  by (auto simp add: firestore_getEstablishments_def)


lemma doc_field_present: "doc_field c (as_document e) \<noteq> None"
  by (cases c) (simp_all add: as_document_def null_or_def split: option.splits)

lemma matches_as_document:
  "matches (Where c OpEq v) (as_document e) = holds (Eq c v) e"
  "matches (Where c OpGe v) (as_document e) = holds (Gte c v) e"
  "matches (OrderBy c d) (as_document e) = True"
  by (cases c; simp add: as_document_def null_or_def split: option.splits)+

lemma matches_all_as_document:
  "(\<forall>c \<in> set cs. matches c (as_document e)) = (\<forall>q \<in> set (where_constraints cs). holds q e)"
  by (induction cs rule: where_constraints.induct)
     (simp_all add: matches_as_document del: matches.simps holds.simps)

lemma timestamp_order:
  fixes a b :: int
  shows "((a div 1000, a mod 1000 * 1000000) \<le> (b div 1000, b mod 1000 * 1000000)) = (a \<le> b)"
proof -
  have a: "a = 1000 * (a div 1000) + a mod 1000" "0 \<le> a mod 1000" "a mod 1000 < 1000"
    by simp_all
  have b: "b = 1000 * (b div 1000) + b mod 1000" "0 \<le> b mod 1000" "b mod 1000 < 1000"
    by simp_all
  have "(a div 1000 < b div 1000 \<or> a div 1000 \<le> b div 1000 \<and> a mod 1000 \<le> b mod 1000) =
      (a \<le> b)"
    using a b by linarith
  then show ?thesis by simp
qed

lemma key_agreement:
  assumes "not_null c e1" "not_null c e2"
  shows "(doc_key c (as_document e1) \<le> doc_key c (as_document e2)) =
     (order_key c e1 \<le> order_key c e2)"
proof (cases c)
  case ColCreatedAt
  with assms obtain t1 t2 where "createdAt e1 = Some t1" "createdAt e2 = Some t2"
    by auto
  then show ?thesis
    using timestamp_order [of t1 t2]
    by (simp add: ColCreatedAt doc_key_def as_document_def null_or_def timestamp_of_def)
next
  case ColRating
  with assms obtain s1 s2 where "rating e1 = Some s1" "rating e2 = Some s2"
    by auto
  then show ?thesis
    by (auto simp add: ColRating doc_key_def as_document_def null_or_def)
next
  case ColName
  then show ?thesis by (auto simp add: doc_key_def as_document_def)
next
  case ColCategory
  then show ?thesis by (auto simp add: doc_key_def as_document_def)
next
  case ColLocation
  then show ?thesis by (auto simp add: doc_key_def as_document_def)
qed

lemma perm_of_map:
  "mset ys = mset (map f xs) \<Longrightarrow> \<exists>zs. mset zs = mset xs \<and> map f zs = ys"
proof (induction ys arbitrary: xs)
  case Nil
  then show ?case by simp
next
  case (Cons y ys)
  from Cons.prems have sets: "set (y # ys) = set (map f xs)" by (rule mset_eq_setD)
  have "y \<in> set (y # ys)" by simp
  then have "y \<in> set (map f xs)" by (simp only: sets)
  then have "y \<in> f ` set xs" by (simp only: set_map)
  then obtain x where fx: "y = f x" and x1: "x \<in> set xs" by (rule imageE)
  note x = x1 fx [symmetric]
  from x(1) have "x \<in># mset xs" by simp
  then have "add_mset x (mset xs - {#x#}) = mset xs" by (rule insert_DiffM)
  then have split: "add_mset x (mset (remove1 x xs)) = mset xs"
    by (simp only: mset_remove1)
  have "image_mset f (mset xs) = image_mset f (add_mset x (mset (remove1 x xs)))"
    by (simp only: split)
  also have "\<dots> = add_mset (f x) (image_mset f (mset (remove1 x xs)))"
    by (rule image_mset_add_mset)
  finally have img: "image_mset f (mset xs) = add_mset y (image_mset f (mset (remove1 x xs)))"
    by (simp only: x(2))
  from Cons.prems have "add_mset y (mset ys) = image_mset f (mset xs)"
    by (simp only: mset.simps mset_map)
  then have "add_mset y (mset ys) = add_mset y (image_mset f (mset (remove1 x xs)))"
    by (simp only: img)
  then have "mset ys = image_mset f (mset (remove1 x xs))"
    by (simp only: add_mset_add_mset_same_iff)
  then have "mset ys = mset (map f (remove1 x xs))"
    by (simp only: mset_map)
  from Cons.IH [OF this] obtain zs where zs: "mset zs = mset (remove1 x xs)" "map f zs = ys"
    by (elim exE conjE)
  have "mset (x # zs) = mset xs"
    by (simp only: mset.simps zs(1) split)
  moreover have "map f (x # zs) = y # ys"
    by (simp only: list.map zs(2) x(2))
  ultimately have "mset (x # zs) = mset xs \<and> map f (x # zs) = y # ys" by (rule conjI)
  then show ?case by (rule exI)
qed

lemma sorted_keys_cong:
  assumes "\<And>x y. x \<in> set xs \<Longrightarrow> y \<in> set xs \<Longrightarrow> (k1 x \<le> k1 y) = (k2 x \<le> k2 y)"
  shows "sorted (map k1 xs) = sorted (map k2 xs)"
proof -
  have "sorted_wrt (\<lambda>x y. k1 x \<le> k1 y) xs = sorted_wrt (\<lambda>x y. k2 x \<le> k2 y) xs"
  proof
    assume "sorted_wrt (\<lambda>x y. k1 x \<le> k1 y) xs"
    then show "sorted_wrt (\<lambda>x y. k2 x \<le> k2 y) xs"
      by (rule sorted_wrt_mono_rel [rotated]) (simp add: assms)
  next
    assume "sorted_wrt (\<lambda>x y. k2 x \<le> k2 y) xs"
    then show "sorted_wrt (\<lambda>x y. k1 x \<le> k1 y) xs"
      by (rule sorted_wrt_mono_rel [rotated]) (simp add: assms)
  qed
  then show ?thesis by (simp only: sorted_map)
qed

lemma sorted_rev_keys_cong:
  assumes "\<And>x y. x \<in> set xs \<Longrightarrow> y \<in> set xs \<Longrightarrow> (k1 x \<le> k1 y) = (k2 x \<le> k2 y)"
  shows "sorted (rev (map k1 xs)) = sorted (rev (map k2 xs))"
proof -
  have "sorted (map k1 (rev xs)) = sorted (map k2 (rev xs))"
    by (rule sorted_keys_cong) (simp_all add: assms)
  then show ?thesis by (simp add: rev_map)
qed

lemma selected_as_documents:
  "selected_docs (map as_document tbl) (queryConstraints fo s) =
     map as_document (filter (where_holds (q_where (getEstablishments_query fo s))) tbl)"
proof -
  have "(\<forall>c \<in> set (queryConstraints fo s). matches c (as_document e)) =
      where_holds (q_where (getEstablishments_query fo s)) e" for e
    by (simp only: matches_all_as_document queryConstraints_where query_where_holds)
  then show ?thesis
    by (simp add: selected_docs_def filter_map comp_def)
qed

lemma ordered_as_documents:
  assumes "\<forall>e \<in> set r. not_null (ordering_column od) e"
  shows "doc_ordered (Some od) (map as_document r) = ordered (Some od) rows r"
proof (cases od)
  case (Asc c)
  have "sorted (map (doc_key c \<circ> as_document) r) = sorted (map (order_key c) r)"
    by (rule sorted_keys_cong) (use assms Asc in \<open>simp add: key_agreement\<close>)
  then show ?thesis by (simp add: Asc)
next
  case (Desc c)
  have "sorted (rev (map (doc_key c \<circ> as_document) r)) = sorted (rev (map (order_key c) r))"
    by (rule sorted_rev_keys_cong) (use assms Desc in \<open>simp add: key_agreement\<close>)
  then show ?thesis by (simp add: Desc)
qed

lemma queryConstraints_order_column:
  "\<exists>od. order_constraint (queryConstraints fo s) = Some od \<and>
     ordering_column od = fst (firestore_sort (sortBy_default s))"
proof (cases "snd (firestore_sort (sortBy_default s))")
  case DirAsc
  then have "order_constraint (queryConstraints fo s) =
      Some (Asc (fst (firestore_sort (sortBy_default s))))"
    by (simp add: queryConstraints_def order_constraint_filter_constraints)
  then show ?thesis by simp
next
  case DirDesc
  then have "order_constraint (queryConstraints fo s) =
      Some (Desc (fst (firestore_sort (sortBy_default s))))"
    by (simp add: queryConstraints_def order_constraint_filter_constraints)
  then show ?thesis by simp
qed

lemma document_answer_is_relational:
  assumes ord: "order_constraint (queryConstraints fo s) = q_orderBy (getEstablishments_query fo s)"
    and nn: "\<forall>e \<in> set tbl. not_null (fst (firestore_sort (sortBy_default s))) e"
    and snap: "getDocs (map as_document tbl) (queryConstraints fo s) (Inr ds)"
  shows "\<exists>r. ds = map as_document r \<and> storage_getEstablishments tbl fo s r"
proof -
  let ?rows = "filter (where_holds (q_where (getEstablishments_query fo s))) tbl"
  from snap have ms: "mset ds = mset (map as_document ?rows)"
    by (simp add: getDocs_success selected_as_documents)
  from snap have so: "doc_ordered (order_constraint (queryConstraints fo s)) ds"
    by (simp add: getDocs_success)
  from perm_of_map [OF ms] obtain r where r1: "mset r = mset ?rows" and r2: "map as_document r = ds"
    by (elim exE conjE)
  from r1 have "set r = set ?rows" by (rule mset_eq_setD)
  then have sub: "e \<in> set tbl" if "e \<in> set r" for e
    using that by simp
  from queryConstraints_order_column [of fo s] obtain od
    where od1: "order_constraint (queryConstraints fo s) = Some od"
      and od2: "ordering_column od = fst (firestore_sort (sortBy_default s))"
    by (elim exE conjE)
  have "\<forall>e \<in> set r. not_null (ordering_column od) e"
  proof
    fix e assume "e \<in> set r"
    then have "e \<in> set tbl" by (rule sub)
    with nn show "not_null (ordering_column od) e" by (simp only: od2)
  qed
  then have "doc_ordered (Some od) (map as_document r) = ordered (Some od) ?rows r"
    by (rule ordered_as_documents)
  with so have "ordered (Some od) ?rows r"
    by (simp only: od1 r2)
  then have "ordered (q_orderBy (getEstablishments_query fo s)) ?rows r"
    by (simp only: ord [symmetric] od1)
  with r1 have "storage_getEstablishments tbl fo s r"
    by (simp only: storage_getEstablishments_def is_result_def simp_thms)
  with r2 have "ds = map as_document r \<and> storage_getEstablishments tbl fo s r"
    by simp
  then show ?thesis by (rule exI)
qed

lemma recognised_orderBy:
  assumes "sortBy_default s \<in> set recognised"
  shows "order_constraint (queryConstraints fo s) = q_orderBy (getEstablishments_query fo s)"
proof -
  from assms consider "sortBy_default s = ''Newest first''" | "sortBy_default s = ''createdAt''"
    | "sortBy_default s = ''Highest rated''" | "sortBy_default s = ''Name A-Z''"
    | "sortBy_default s = ''Name Z-A''"
    by (auto simp add: recognised_def)
  then show ?thesis
    by cases
       (simp_all add: queryConstraints_order query_orderBy firestore_sort_def sort_ordering_def)
qed

lemma unrecognised_orderBy:
  assumes "sortBy_default s \<notin> set recognised"
  shows "q_orderBy (getEstablishments_query fo s) = None"
    and "order_constraint (queryConstraints fo s) = Some (Desc ColCreatedAt)"
  using assms
  by (simp_all add: queryConstraints_order query_orderBy firestore_sort_def sort_ordering_def
      recognised_def)

lemma same_filter:
  "(\<forall>c \<in> set (firestore_filter_constraints fo). matches c (as_document e)) =
     where_holds (q_where (getEstablishments_query fo s)) e"
  by (simp only: matches_all_as_document firestore_where query_where_holds)

lemma snapshot_set:
  assumes "getDocs docs (queryConstraints fo s) (Inr ds)"
  shows "set ds = {d \<in> set docs.
     (\<forall>c \<in> set (firestore_filter_constraints fo). matches c d) \<and>
     doc_field (fst (firestore_sort (sortBy_default s))) d \<noteq> None}"
  using getDocs_set [OF assms] by (simp only: queryConstraints_matches)

lemma as_document_fields:
  "d_name (as_document e) = name e"
  "d_category (as_document e) = category e"
  "d_location (as_document e) = location e"
  "d_rating (as_document e) = null_or (rating e)"
  "d_createdAt (as_document e) = null_or (map_option timestamp_of (createdAt e))"
  by (simp_all add: as_document_def)

lemma no_filter_constraints:
  "queryConstraints None (Some s) =
     [OrderBy (fst (firestore_sort s)) (snd (firestore_sort s))]"
  by (simp add: queryConstraints_def firestore_filter_constraints_def sortBy_default_def)

lemma no_filter_snapshot:
  "getDocs (map as_document tbl) (queryConstraints None (Some s)) (Inr (map as_document r)) =
     (mset (map as_document r) = mset (map as_document tbl) \<and>
      doc_ordered (order_constraint (queryConstraints None (Some s))) (map as_document r))"
proof -
  have "selected_docs (map as_document tbl) (queryConstraints None (Some s)) =
      map as_document tbl"
    by (simp add: selected_docs_def no_filter_constraints matches_as_document
        del: matches.simps)
  then show ?thesis by (simp only: getDocs_success)
qed

lemma or_undefined_cases:
  "x \<in> {None, Some []} \<Longrightarrow> or_undefined x = None"
  "s \<noteq> [] \<Longrightarrow> or_undefined (Some s) = Some s"
  by (auto simp add: or_undefined_def truthy_str_def)

lemma or_default_cases:
  "x \<in> {None, Some []} \<Longrightarrow> or_default x d = d"
  "s \<noteq> [] \<Longrightarrow> or_default (Some s) d = s"
  by (auto simp add: or_default_def truthy_str_def)

lemma toString_examples: "toString 7 = ''7''" "toString 1234 = ''1234''" "toString (-50) = ''-50''"
  by code_simp+

lemma deleteEstablishment_state:
  "snd (storage_deleteEstablishment i db) =
     db\<lparr>attachments := filter (\<lambda>a. establishmentId a \<noteq> i) (attachments db),
        establishments := filter (\<lambda>e. eid e \<noteq> i) (establishments db)\<rparr>"
  "fst (storage_deleteEstablishment i db) = (\<exists>e \<in> set (establishments db). eid e = i)"
  by (auto simp add: storage_deleteEstablishment_def delete_attachments_of_def
      delete_establishment_row_def filter_empty_conv)

lemma getEstablishment_None:
  "(storage_getEstablishment i db = None) = (\<forall>e \<in> set (establishments db). eid e \<noteq> i)"
proof -
  have "(storage_getEstablishment i db = None) =
      (filter (\<lambda>e. eid e = i) (establishments db) = [])"
    by (simp add: storage_getEstablishment_def split: list.splits)
  then show ?thesis by (simp add: filter_empty_conv)
qed

lemma deleteAttachment_found:
  "fst (storage_deleteAttachment j db) = (\<exists>a \<in> set (attachments db). aid a = j)"
  by (auto simp add: storage_deleteAttachment_def Let_def filter_empty_conv)

section \<open>Sorting by name\<close>

text \<open>
  Claim C8, as amended. For a fixed table and fixed filters, in both engines, the names
  in an answer to "Name A-Z" are the names in an answer to "Name Z-A" in reverse order;
  when the establishments in the answer have pairwise distinct names, the two answers
  themselves are reverses of each other. For the document store the answers are its
  snapshots, and the same holds of the lists the adapter converts them to, the two
  conversions reading the same time.
\<close>

theorem name_sorts_reverse:
  "(storage_getEstablishments tbl fo (Some ''Name A-Z'') r1 \<and>
    storage_getEstablishments tbl fo (Some ''Name Z-A'') r2 \<longrightarrow>
      map name r1 = rev (map name r2) \<and> (distinct (map name r1) \<longrightarrow> r1 = rev r2)) \<and>
   (getDocs docs (queryConstraints fo (Some ''Name A-Z'')) (Inr d1) \<and>
    getDocs docs (queryConstraints fo (Some ''Name Z-A'')) (Inr d2) \<longrightarrow>
      map d_name d1 = rev (map d_name d2) \<and> (distinct (map d_name d1) \<longrightarrow> d1 = rev d2) \<and>
      (\<forall>x1 x2. firestore_getEstablishments toDate now1 (Inr d1) = Inr x1 \<and>
         firestore_getEstablishments toDate now2 (Inr d2) = Inr x2 \<longrightarrow>
         map fb_name x1 = rev (map fb_name x2) \<and>
         (distinct (map fb_name x1) \<and> now1 = now2 \<longrightarrow> x1 = rev x2)))"
proof -
  have w: "q_where (getEstablishments_query fo (Some ''Name A-Z'')) =
      q_where (getEstablishments_query fo (Some ''Name Z-A''))"
    by (simp add: getEstablishments_query_def Let_def)
  have az: "q_orderBy (getEstablishments_query fo (Some ''Name A-Z'')) = Some (Asc ColName)"
    by (simp add: query_orderBy sortBy_default_def sort_ordering_def)
  have za: "q_orderBy (getEstablishments_query fo (Some ''Name Z-A'')) = Some (Desc ColName)"
    by (simp add: query_orderBy sortBy_default_def sort_ordering_def)
  have storage: "map name x = rev (map name y) \<and> (distinct (map name x) \<longrightarrow> x = rev y)"
    if "storage_getEstablishments tbl fo (Some ''Name A-Z'') x"
      and "storage_getEstablishments tbl fo (Some ''Name Z-A'') y" for x y
    using that asc_desc_names [OF _ _ w az za, of tbl x y]
    by (simp add: storage_getEstablishments_def)
  show ?thesis
  proof (intro conjI impI allI)
    assume a: "storage_getEstablishments tbl fo (Some ''Name A-Z'') r1 \<and>
      storage_getEstablishments tbl fo (Some ''Name Z-A'') r2"
    show "map name r1 = rev (map name r2)"
      using storage [OF a [THEN conjunct1] a [THEN conjunct2]] by (rule conjunct1)
    assume "distinct (map name r1)"
    with storage [OF a [THEN conjunct1] a [THEN conjunct2]] show "r1 = rev r2" by simp
  next
    assume a: "getDocs docs (queryConstraints fo (Some ''Name A-Z'')) (Inr d1) \<and>
      getDocs docs (queryConstraints fo (Some ''Name Z-A'')) (Inr d2)"
    show names: "map d_name d1 = rev (map d_name d2)"
      by (rule docs_asc_desc_names(1) [OF a [THEN conjunct1] a [THEN conjunct2]])
    {
      assume "distinct (map d_name d1)"
      then show "d1 = rev d2"
        by (rule docs_asc_desc_names(2) [OF a [THEN conjunct1] a [THEN conjunct2]])
    }
    fix x1 x2
    assume c: "firestore_getEstablishments toDate now1 (Inr d1) = Inr x1 \<and>
         firestore_getEstablishments toDate now2 (Inr d2) = Inr x2"
    then have x1: "x1 = map (convertDocToEstablishment toDate now1) d1"
      and x2: "x2 = map (convertDocToEstablishment toDate now2) d2"
      by (simp_all only: firestore_success)
    show "map fb_name x1 = rev (map fb_name x2)"
      by (simp only: x1 x2 converted_names names)
    assume d: "distinct (map fb_name x1) \<and> now1 = now2"
    then have "distinct (map d_name d1)" by (simp only: x1 converted_names)
    then have "d1 = rev d2"
      by (rule docs_asc_desc_names(2) [OF a [THEN conjunct1] a [THEN conjunct2]])
    with d show "x1 = rev x2" by (simp add: x1 x2 rev_map)
  qed
qed


theorem name_sorts_reverse_witness:
  "storage_getEstablishments [estA, estB] None (Some ''Name A-Z'') [estA, estB] \<and>
   storage_getEstablishments [estA, estB] None (Some ''Name Z-A'') [estB, estA] \<and>
   distinct (map name [estA, estB]) \<and> [estA, estB] = rev [estB, estA] \<and>
   getDocs (map as_document [estA, estB]) (queryConstraints None (Some ''Name A-Z''))
     (Inr (map as_document [estA, estB])) \<and>
   getDocs (map as_document [estA, estB]) (queryConstraints None (Some ''Name Z-A''))
     (Inr (map as_document [estB, estA])) \<and>
   map d_name (map as_document [estA, estB]) = rev (map d_name (map as_document [estB, estA]))"
proof -
  have az: "storage_getEstablishments [estA, estB] None (Some ''Name A-Z'') [estA, estB]"
    by (simp add: storage_getEstablishments_def no_filter_query is_result_def
        sort_ordering_def where_holds_def estA_def estB_def rated_def)
  have za: "storage_getEstablishments [estA, estB] None (Some ''Name Z-A'') [estB, estA]"
    by (simp add: storage_getEstablishments_def no_filter_query is_result_def
        sort_ordering_def where_holds_def estA_def estB_def rated_def)
  have d: "distinct (map name [estA, estB])"
    by (simp add: estA_def estB_def rated_def)
  have rows: "[estA, estB] = rev [estB, estA]"
    by (rule name_sorts_reverse [THEN conjunct1, rule_format, OF conjI [OF az za],
          THEN conjunct2, rule_format, OF d])
  have daz: "getDocs (map as_document [estA, estB]) (queryConstraints None (Some ''Name A-Z''))
     (Inr (map as_document [estA, estB]))"
    unfolding no_filter_snapshot
    by (simp add: no_filter_constraints firestore_sort_def doc_key_def as_document_fields
        estA_def estB_def rated_def)
  have dza: "getDocs (map as_document [estA, estB]) (queryConstraints None (Some ''Name Z-A''))
     (Inr (map as_document [estB, estA]))"
    unfolding no_filter_snapshot
    by (simp add: no_filter_constraints firestore_sort_def doc_key_def as_document_fields
        estA_def estB_def rated_def)
  have docs: "map d_name (map as_document [estA, estB]) =
      rev (map d_name (map as_document [estB, estA]))"
    by (rule name_sorts_reverse [THEN conjunct2, rule_format, OF conjI [OF daz dza],
          THEN conjunct1])
  from az za d rows daz dza docs show ?thesis by (intro conjI)
qed

theorem name_sorts_reverse_counterexample:
  "storage_getEstablishments [twin1, twin2] None (Some ''Name A-Z'') [twin1, twin2] \<and>
   storage_getEstablishments [twin1, twin2] None (Some ''Name Z-A'') [twin1, twin2] \<and>
   [twin1, twin2] \<noteq> rev [twin1, twin2]"
  by (simp add: storage_getEstablishments_def no_filter_query is_result_def
      sort_ordering_def where_holds_def twin1_def twin2_def rated_def)

section \<open>The two engines\<close>

text \<open>
  Claim C3, as amended. For every combination of filters the document-store adapter
  builds the same conditions as the relational storage, and an establishment passes them
  in one store exactly when it does in the other. For the labels "Newest first",
  "Highest rated", "Name A-Z" and "Name Z-A", and for "createdAt" or no label, both ask
  for the same ordering; for any other label the relational storage applies no ordering,
  while the document-store adapter orders by creation time, descending. The two stores
  order establishments whose ordered column is not null in the same way. A snapshot of
  the document store holds the documents that pass the filters and have the ordered
  field; on a table whose rows all have the ordered column set, under a recognised
  label, every snapshot lists the rows of an answer of the relational storage, in its
  order.
\<close>

theorem engines_agree:
  "where_constraints (queryConstraints fo s) = conditions fo \<and>
   (\<forall>e. (\<forall>c \<in> set (firestore_filter_constraints fo). matches c (as_document e)) =
        where_holds (q_where (getEstablishments_query fo s)) e) \<and>
   (sortBy_default s \<in> set recognised \<longrightarrow>
      order_constraint (queryConstraints fo s) = q_orderBy (getEstablishments_query fo s)) \<and>
   (sortBy_default s \<notin> set recognised \<longrightarrow>
      q_orderBy (getEstablishments_query fo s) = None \<and>
      order_constraint (queryConstraints fo s) = Some (Desc ColCreatedAt)) \<and>
   (\<forall>c e1 e2. not_null c e1 \<and> not_null c e2 \<longrightarrow>
      (doc_key c (as_document e1) \<le> doc_key c (as_document e2)) =
        (order_key c e1 \<le> order_key c e2)) \<and>
   (\<forall>ds. getDocs docs (queryConstraints fo s) (Inr ds) \<longrightarrow>
      set ds = {d \<in> set docs.
        (\<forall>c \<in> set (firestore_filter_constraints fo). matches c d) \<and>
        doc_field (fst (firestore_sort (sortBy_default s))) d \<noteq> None}) \<and>
   (sortBy_default s \<in> set recognised \<and>
    (\<forall>e \<in> set tbl. not_null (fst (firestore_sort (sortBy_default s))) e) \<longrightarrow>
      (\<forall>ds. getDocs (map as_document tbl) (queryConstraints fo s) (Inr ds) \<longrightarrow>
         (\<exists>r. ds = map as_document r \<and> storage_getEstablishments tbl fo s r)))"
proof (intro conjI allI impI)
  show "where_constraints (queryConstraints fo s) = conditions fo"
    by (rule queryConstraints_where)
next
  fix e
  show "(\<forall>c \<in> set (firestore_filter_constraints fo). matches c (as_document e)) =
        where_holds (q_where (getEstablishments_query fo s)) e"
    by (rule same_filter)
next
  assume "sortBy_default s \<in> set recognised"
  then show "order_constraint (queryConstraints fo s) =
      q_orderBy (getEstablishments_query fo s)"
    by (rule recognised_orderBy)
next
  assume "sortBy_default s \<notin> set recognised"
  then show "q_orderBy (getEstablishments_query fo s) = None"
    by (rule unrecognised_orderBy(1))
next
  assume "sortBy_default s \<notin> set recognised"
  then show "order_constraint (queryConstraints fo s) = Some (Desc ColCreatedAt)"
    by (rule unrecognised_orderBy(2))
next
  fix c e1 e2
  assume a: "not_null c e1 \<and> not_null c e2"
  show "(doc_key c (as_document e1) \<le> doc_key c (as_document e2)) =
        (order_key c e1 \<le> order_key c e2)"
    by (rule key_agreement [OF a [THEN conjunct1] a [THEN conjunct2]])
next
  fix ds
  assume "getDocs docs (queryConstraints fo s) (Inr ds)"
  then show "set ds = {d \<in> set docs.
        (\<forall>c \<in> set (firestore_filter_constraints fo). matches c d) \<and>
        doc_field (fst (firestore_sort (sortBy_default s))) d \<noteq> None}"
    by (rule snapshot_set)
next
  fix ds
  assume a: "sortBy_default s \<in> set recognised \<and>
    (\<forall>e \<in> set tbl. not_null (fst (firestore_sort (sortBy_default s))) e)"
    and snap: "getDocs (map as_document tbl) (queryConstraints fo s) (Inr ds)"
  show "\<exists>r. ds = map as_document r \<and> storage_getEstablishments tbl fo s r"
    by (rule document_answer_is_relational
          [OF recognised_orderBy [OF a [THEN conjunct1]] a [THEN conjunct2] snap])
qed


theorem engines_agree_witness:
  "sortBy_default (Some ''Name A-Z'') \<in> set recognised \<and>
   sortBy_default (Some ''Oldest first'') \<notin> set recognised \<and>
   getDocs (map as_document [estA, estB]) (queryConstraints None (Some ''Name A-Z''))
     (Inr (map as_document [estA, estB])) \<and>
   (\<exists>r. map as_document [estA, estB] = map as_document r \<and>
      storage_getEstablishments [estA, estB] None (Some ''Name A-Z'') r) \<and>
   order_constraint (queryConstraints None (Some ''Oldest first'')) = Some (Desc ColCreatedAt) \<and>
   not_null ColCreatedAt estA \<and> not_null ColCreatedAt estB \<and>
   doc_key ColCreatedAt (as_document estA) \<le> doc_key ColCreatedAt (as_document estB)"
proof -
  have rec: "sortBy_default (Some ''Name A-Z'') \<in> set recognised"
    by (simp add: sortBy_default_def recognised_def)
  have unrec: "sortBy_default (Some ''Oldest first'') \<notin> set recognised"
    by (simp add: sortBy_default_def recognised_def)
  have snap: "getDocs (map as_document [estA, estB]) (queryConstraints None (Some ''Name A-Z''))
     (Inr (map as_document [estA, estB]))"
    unfolding no_filter_snapshot
    by (simp add: no_filter_constraints firestore_sort_def doc_key_def as_document_fields
        estA_def estB_def rated_def)
  have named: "\<forall>e \<in> set [estA, estB].
      not_null (fst (firestore_sort (sortBy_default (Some ''Name A-Z'')))) e"
    by (simp add: firestore_sort_def sortBy_default_def)
  have rel: "\<exists>r. map as_document [estA, estB] = map as_document r \<and>
      storage_getEstablishments [estA, estB] None (Some ''Name A-Z'') r"
    by (rule engines_agree [THEN conjunct2, THEN conjunct2, THEN conjunct2, THEN conjunct2,
          THEN conjunct2, THEN conjunct2, rule_format, OF conjI [OF rec named] snap])
  have ord: "order_constraint (queryConstraints None (Some ''Oldest first'')) =
      Some (Desc ColCreatedAt)"
    by (rule engines_agree [THEN conjunct2, THEN conjunct2, THEN conjunct2, THEN conjunct1,
          rule_format, OF unrec, THEN conjunct2])
  have nn: "not_null ColCreatedAt estA \<and> not_null ColCreatedAt estB"
    by (simp add: estA_def estB_def rated_def)
  have "(doc_key ColCreatedAt (as_document estA) \<le> doc_key ColCreatedAt (as_document estB)) =
      (order_key ColCreatedAt estA \<le> order_key ColCreatedAt estB)"
    by (rule engines_agree [THEN conjunct2, THEN conjunct2, THEN conjunct2, THEN conjunct2,
          THEN conjunct1, rule_format, OF nn])
  then have keys: "doc_key ColCreatedAt (as_document estA) \<le>
      doc_key ColCreatedAt (as_document estB)"
    by (simp add: estA_def estB_def rated_def)
  from rec unrec snap rel ord nn keys show ?thesis by (intro conjI) simp_all
qed

text \<open>
  For the label "Oldest first" the relational query has no ordering and answers in table
  order; the constraint list of the document store orders by creation time, newest
  first, and the table order (A before B, B the newer) is no snapshot of it. Under
  "Highest rated" the relational store puts a row without rating first, and the document
  store never does.
\<close>

theorem engines_agree_counterexample:
  "storage_getEstablishments [estA, estB] None (Some ''Oldest first'') [estA, estB] \<and>
   \<not> getDocs (map as_document [estA, estB]) (queryConstraints None (Some ''Oldest first''))
       (Inr (map as_document [estA, estB])) \<and>
   q_orderBy (getEstablishments_query None (Some ''Oldest first'')) = None \<and>
   order_constraint (queryConstraints None (Some ''Oldest first'')) \<noteq> None \<and>
   storage_getEstablishments [unrated, estA] None (Some ''Highest rated'') [unrated, estA] \<and>
   \<not> getDocs (map as_document [unrated, estA]) (queryConstraints None (Some ''Highest rated''))
       (Inr (map as_document [unrated, estA]))"
proof -
  have s1: "storage_getEstablishments [estA, estB] None (Some ''Oldest first'') [estA, estB]"
    by (simp add: storage_getEstablishments_def no_filter_query is_result_def
        sort_ordering_def where_holds_def)
  have d1: "\<not> getDocs (map as_document [estA, estB])
      (queryConstraints None (Some ''Oldest first'')) (Inr (map as_document [estA, estB]))"
    unfolding no_filter_snapshot
    by (simp add: no_filter_constraints firestore_sort_def doc_key_def as_document_fields
        null_or_def timestamp_of_def estA_def estB_def rated_def)
  have o1: "q_orderBy (getEstablishments_query None (Some ''Oldest first'')) = None"
    by (simp add: no_filter_query sort_ordering_def)
  have o2: "order_constraint (queryConstraints None (Some ''Oldest first'')) \<noteq> None"
    by (simp add: no_filter_constraints firestore_sort_def)
  have s2: "storage_getEstablishments [unrated, estA] None (Some ''Highest rated'')
      [unrated, estA]"
    by (simp add: storage_getEstablishments_def no_filter_query is_result_def
        sort_ordering_def where_holds_def unrated_def estA_def rated_def)
  have d2: "\<not> getDocs (map as_document [unrated, estA])
      (queryConstraints None (Some ''Highest rated'')) (Inr (map as_document [unrated, estA]))"
    unfolding no_filter_snapshot
    by (simp add: no_filter_constraints firestore_sort_def doc_key_def as_document_fields
        null_or_def unrated_def estA_def rated_def)
  from s1 d1 o1 o2 s2 d2 show ?thesis by (intro conjI)
qed

section \<open>The canonical shape\<close>

text \<open>
  Claim C4, as amended. Both conversions give a string identifier: the decimal digits
  of the row's number, and the document key. The conversion of a document gives a date
  for \<^verbatim>\<open>createdAt\<close>: the stored timestamp converted, or the current time when there is
  none. The conversion of a relational row gives the current time when \<^verbatim>\<open>createdAt\<close> is
  null, and hands a \<^verbatim>\<open>Date\<close> on as it is. Both keep a description or cover image that
  is not empty; an absent or empty one becomes \<^verbatim>\<open>undefined\<close> in the conversion of a
  relational row, and the empty string in the conversion of a document.
\<close>

theorem canonical_shape:
  "fb_id (toFirebaseEstablishment now row) = toString (j_id row) \<and>
   (j_createdAt row = None \<longrightarrow>
      fb_createdAt (toFirebaseEstablishment now row) = DateObject now) \<and>
   (j_createdAt row = Some (DateObject t) \<longrightarrow>
      fb_createdAt (toFirebaseEstablishment now row) = DateObject t) \<and>
   (j_description row \<in> {None, Some []} \<longrightarrow>
      fb_description (toFirebaseEstablishment now row) = None) \<and>
   (j_coverImage row \<in> {None, Some []} \<longrightarrow>
      fb_coverImage (toFirebaseEstablishment now row) = None) \<and>
   (s \<noteq> [] \<and> j_description row = Some s \<longrightarrow>
      fb_description (toFirebaseEstablishment now row) = Some s) \<and>
   (s \<noteq> [] \<and> j_coverImage row = Some s \<longrightarrow>
      fb_coverImage (toFirebaseEstablishment now row) = Some s) \<and>
   fb_id (convertDocToEstablishment toDate now doc) = doc_id doc \<and>
   fb_createdAt (convertDocToEstablishment toDate now doc) =
     DateObject (case d_createdAt doc of Given ts \<Rightarrow> toDate ts | _ \<Rightarrow> now) \<and>
   (d_description doc \<in> {None, Some []} \<longrightarrow>
      fb_description (convertDocToEstablishment toDate now doc) = Some []) \<and>
   (d_coverImage doc \<in> {None, Some []} \<longrightarrow>
      fb_coverImage (convertDocToEstablishment toDate now doc) = Some []) \<and>
   (s \<noteq> [] \<and> d_description doc = Some s \<longrightarrow>
      fb_description (convertDocToEstablishment toDate now doc) = Some s) \<and>
   (s \<noteq> [] \<and> d_coverImage doc = Some s \<longrightarrow>
      fb_coverImage (convertDocToEstablishment toDate now doc) = Some s)"
  by (cases "d_createdAt doc")
     (simp_all add: toFirebaseEstablishment_def convertDocToEstablishment_def
        or_undefined_cases or_default_cases or_now_def)

theorem canonical_shape_witness:
  "j_description bare_row \<in> {None, Some []} \<and> d_description bare_doc \<in> {None, Some []} \<and>
   j_coverImage bare_row \<in> {None, Some []} \<and> d_coverImage bare_doc \<in> {None, Some []} \<and>
   j_createdAt bare_row = None \<and>
   fb_id (toFirebaseEstablishment 5 bare_row) = ''7'' \<and>
   fb_createdAt (toFirebaseEstablishment 5 bare_row) = DateObject 5 \<and>
   fb_description (toFirebaseEstablishment 5 bare_row) = None \<and>
   fb_description (convertDocToEstablishment whole_millis 5 bare_doc) = Some [] \<and>
   fb_createdAt (convertDocToEstablishment whole_millis 5 bare_doc) = DateObject 12345"
  using canonical_shape [of 5 bare_row _ _ whole_millis bare_doc]
  by (simp add: bare_row_def bare_doc_def toString_examples whole_millis_def)

text \<open>
  A document without description converts to a value whose description is the empty
  string, not \<^verbatim>\<open>undefined\<close>, and differs there from the converted row. A row as the
  server sends it converts to a value whose \<^verbatim>\<open>createdAt\<close> is the string received.
\<close>

theorem canonical_shape_counterexample:
  "d_description bare_doc = None \<and> j_description bare_row = None \<and>
   fb_description (convertDocToEstablishment whole_millis 5 bare_doc) \<noteq> None \<and>
   fb_description (convertDocToEstablishment whole_millis 5 bare_doc) \<noteq>
     fb_description (toFirebaseEstablishment 5 bare_row) \<and>
   fb_createdAt (toFirebaseEstablishment 5 sent_row) = DateString ''2024-05-01T10:00:00.000Z''"
  by (simp add: convertDocToEstablishment_def toFirebaseEstablishment_def bare_doc_def
      bare_row_def sent_row_def or_undefined_def or_default_def or_now_def truthy_str_def)

section \<open>Failures in the REST adapter\<close>

text \<open>
  Claim C5, as amended. When the request fails with a message,
  \<^verbatim>\<open>createEstablishment\<close> and \<^verbatim>\<open>createAttachment\<close> reject with a message: the message
  of the failure when the required fields are there, and, whatever the request would
  answer, the message that required fields are missing when one of them is absent or
  empty. The other six resolve with a
  default value: \<^verbatim>\<open>fetchEstablishments\<close> and \<^verbatim>\<open>fetchAttachments\<close> with the empty list,
  \<^verbatim>\<open>fetchEstablishment\<close> with null, \<^verbatim>\<open>updateEstablishment\<close>,
  \<^verbatim>\<open>deleteEstablishment\<close> and \<^verbatim>\<open>deleteAttachment\<close> with false.
\<close>

theorem adapter_failures:
  "fetchEstablishments now (Inl err) = Inr [] \<and>
   fetchEstablishment now (Inl err) = Inr None \<and>
   adapter_updateEstablishment (Inl err) = Inr False \<and>
   adapter_deleteEstablishment (Inl err) = Inr False \<and>
   fetchAttachments now (Inl err) = Inr [] \<and>
   adapter_deleteAttachment (Inl err) = Inr False \<and>
   (\<exists>msg. adapter_createEstablishment now data (Inl err) = Inl msg) \<and>
   (\<exists>msg. adapter_createAttachment now adata (Inl err) = Inl msg) \<and>
   (truthy_str (data_name data) \<and> truthy_str (data_category data) \<and>
    truthy_str (data_location data) \<longrightarrow>
      adapter_createEstablishment now data (Inl err) = Inl err) \<and>
   (data_fileName adata \<noteq> [] \<and> data_fileType adata \<noteq> [] \<and> data_fileSize adata \<noteq> [] \<and>
    data_filePath adata \<noteq> [] \<and> data_establishmentId adata \<noteq> [] \<and> data_userId adata \<noteq> [] \<longrightarrow>
      adapter_createAttachment now adata (Inl err) = Inl err) \<and>
   (\<not> truthy_str (data_name data) \<or> \<not> truthy_str (data_category data) \<or>
    \<not> truthy_str (data_location data) \<longrightarrow>
      adapter_createEstablishment now data resp =
        Inl ''Missing required fields: name, category, and location are required'') \<and>
   (data_fileName adata = [] \<or> data_fileType adata = [] \<or> data_fileSize adata = [] \<or>
    data_filePath adata = [] \<or> data_establishmentId adata = [] \<or> data_userId adata = [] \<longrightarrow>
      adapter_createAttachment now adata aresp = Inl ''Missing required fields for attachment'')"
proof -
  have missing: "adapter_createEstablishment now data resp =
        Inl ''Missing required fields: name, category, and location are required''"
    if "\<not> truthy_str (data_name data) \<or> \<not> truthy_str (data_category data) \<or>
      \<not> truthy_str (data_location data)"
    unfolding adapter_createEstablishment_def using that by (rule if_P)
  have missing_attachment: "adapter_createAttachment now adata aresp =
        Inl ''Missing required fields for attachment''"
    if "data_fileName adata = [] \<or> data_fileType adata = [] \<or> data_fileSize adata = [] \<or>
      data_filePath adata = [] \<or> data_establishmentId adata = [] \<or> data_userId adata = []"
    unfolding adapter_createAttachment_def using that by (rule if_P)
  show ?thesis
    by (simp add: fetchEstablishments_def fetchEstablishment_def adapter_updateEstablishment_def
        adapter_deleteEstablishment_def fetchAttachments_def adapter_deleteAttachment_def
        missing missing_attachment)
      (simp add: adapter_createEstablishment_def adapter_createAttachment_def)
qed

theorem adapter_failures_witness:
  "truthy_str (data_name kiosk_data) \<and> truthy_str (data_category kiosk_data) \<and>
   truthy_str (data_location kiosk_data) \<and>
   adapter_createEstablishment 0 kiosk_data (Inl ''500: Failed to create establishment'') =
     Inl ''500: Failed to create establishment'' \<and>
   adapter_createAttachment 0 menu_data (Inl ''Establishment not found'') =
     Inl ''Establishment not found'' \<and>
   \<not> truthy_str (data_name (kiosk_data\<lparr>data_name := Some []\<rparr>)) \<and>
   adapter_createEstablishment 0 (kiosk_data\<lparr>data_name := Some []\<rparr>)
       (Inl ''500: Failed to create establishment'') =
     Inl ''Missing required fields: name, category, and location are required'' \<and>
   data_userId (menu_data\<lparr>data_userId := []\<rparr>) = [] \<and>
   adapter_createAttachment 0 (menu_data\<lparr>data_userId := []\<rparr>)
       (Inl ''Establishment not found'') =
     Inl ''Missing required fields for attachment''"
proof -
  have e: "truthy_str (data_name kiosk_data) \<and> truthy_str (data_category kiosk_data) \<and>
      truthy_str (data_location kiosk_data)"
    by (simp add: kiosk_data_def truthy_str_def)
  have a: "data_fileName menu_data \<noteq> [] \<and> data_fileType menu_data \<noteq> [] \<and>
      data_fileSize menu_data \<noteq> [] \<and> data_filePath menu_data \<noteq> [] \<and>
      data_establishmentId menu_data \<noteq> [] \<and> data_userId menu_data \<noteq> []"
    by (simp add: menu_data_def)
  have n: "\<not> truthy_str (data_name (kiosk_data\<lparr>data_name := Some []\<rparr>))"
    by (simp add: truthy_str_def)
  have u: "data_userId (menu_data\<lparr>data_userId := []\<rparr>) = []"
    by simp
  have r1: "adapter_createEstablishment 0 kiosk_data (Inl ''500: Failed to create establishment'') =
     Inl ''500: Failed to create establishment''"
    by (rule adapter_failures [THEN conjunct2, THEN conjunct2, THEN conjunct2, THEN conjunct2,
          THEN conjunct2, THEN conjunct2, THEN conjunct2, THEN conjunct2, THEN conjunct1,
          THEN mp, OF e])
  have r2: "adapter_createAttachment 0 menu_data (Inl ''Establishment not found'') =
     Inl ''Establishment not found''"
    by (rule adapter_failures [THEN conjunct2, THEN conjunct2, THEN conjunct2, THEN conjunct2,
          THEN conjunct2, THEN conjunct2, THEN conjunct2, THEN conjunct2, THEN conjunct2,
          THEN conjunct1, THEN mp, OF a])
  have r3: "adapter_createEstablishment 0 (kiosk_data\<lparr>data_name := Some []\<rparr>)
       (Inl ''500: Failed to create establishment'') =
     Inl ''Missing required fields: name, category, and location are required''"
    by (rule adapter_failures [THEN conjunct2, THEN conjunct2, THEN conjunct2, THEN conjunct2,
          THEN conjunct2, THEN conjunct2, THEN conjunct2, THEN conjunct2, THEN conjunct2,
          THEN conjunct2, THEN conjunct1, THEN mp, OF disjI1, OF n])
  have r4: "adapter_createAttachment 0 (menu_data\<lparr>data_userId := []\<rparr>)
       (Inl ''Establishment not found'') =
     Inl ''Missing required fields for attachment''"
    by (rule adapter_failures [THEN conjunct2, THEN conjunct2, THEN conjunct2, THEN conjunct2,
          THEN conjunct2, THEN conjunct2, THEN conjunct2, THEN conjunct2, THEN conjunct2,
          THEN conjunct2, THEN conjunct2, THEN mp])
       (intro disjI2 u)
  from e r1 r2 n u r3 r4 show ?thesis by (intro conjI) (elim conjE, assumption)+
qed

text \<open>A failing request for the list of establishments resolves with the empty list.\<close>

theorem adapter_failures_counterexample:
  "fetchEstablishments 0 (Inl ''500: Failed to get establishments'') = Inr [] \<and>
   \<not> isl (fetchEstablishments 0 (Inl ''500: Failed to get establishments''))"
  by (simp add: fetchEstablishments_def)

section \<open>Deleting an establishment\<close>

text \<open>
  Claim C6. Attachment identifiers being unique (the primary key), deleting the
  establishment \<open>i\<close> first removes its attachments, the row still being there, and then
  the row. Afterwards the attachments left are those of other establishments, no
  attachment and no row of \<open>i\<close> is found, none of the identifiers of the removed
  attachments is in the table, so that deleting one of them reports not found, and the
  result is true exactly when the row existed.
\<close>

theorem delete_cascades:
  assumes "distinct (map aid (attachments db))"
  shows "establishments (delete_attachments_of i db) = establishments db \<and>
     storage_getAttachments i (delete_attachments_of i db) = [] \<and>
     storage_deleteEstablishment i db =
       (length (fst (delete_establishment_row i (delete_attachments_of i db))) > 0,
        snd (delete_establishment_row i (delete_attachments_of i db))) \<and>
     attachments (snd (storage_deleteEstablishment i db)) =
       filter (\<lambda>a. establishmentId a \<noteq> i) (attachments db) \<and>
     establishments (snd (storage_deleteEstablishment i db)) =
       filter (\<lambda>e. eid e \<noteq> i) (establishments db) \<and>
     storage_getAttachments i (snd (storage_deleteEstablishment i db)) = [] \<and>
     storage_getEstablishment i (snd (storage_deleteEstablishment i db)) = None \<and>
     (\<forall>a \<in> set (storage_getAttachments i db).
        (\<forall>a' \<in> set (attachments (snd (storage_deleteEstablishment i db))). aid a' \<noteq> aid a) \<and>
        \<not> fst (storage_deleteAttachment (aid a) (snd (storage_deleteEstablishment i db)))) \<and>
     fst (storage_deleteEstablishment i db) = (storage_getEstablishment i db \<noteq> None)"
proof -
  have gone: "aid a' \<noteq> aid a"
    if "a \<in> set (storage_getAttachments i db)"
      and "a' \<in> set (attachments (snd (storage_deleteEstablishment i db)))" for a a'
  proof
    assume eq: "aid a' = aid a"
    from that have "a \<in> set (attachments db)" "establishmentId a = i"
      "a' \<in> set (attachments db)" "establishmentId a' \<noteq> i"
      by (simp_all add: storage_getAttachments_def deleteEstablishment_state)
    moreover from assms have "inj_on aid (set (attachments db))"
      by (simp add: distinct_map)
    ultimately show False using eq by (auto dest: inj_onD)
  qed
  have first: "establishments (delete_attachments_of i db) = establishments db"
    "storage_getAttachments i (delete_attachments_of i db) = []"
    by (simp_all add: delete_attachments_of_def storage_getAttachments_def)
  have steps: "storage_deleteEstablishment i db =
       (length (fst (delete_establishment_row i (delete_attachments_of i db))) > 0,
        snd (delete_establishment_row i (delete_attachments_of i db)))"
    by (simp add: storage_deleteEstablishment_def Let_def split_beta)
  have after: "attachments (snd (storage_deleteEstablishment i db)) =
       filter (\<lambda>a. establishmentId a \<noteq> i) (attachments db)"
    "establishments (snd (storage_deleteEstablishment i db)) =
       filter (\<lambda>e. eid e \<noteq> i) (establishments db)"
    "storage_getAttachments i (snd (storage_deleteEstablishment i db)) = []"
    "storage_getEstablishment i (snd (storage_deleteEstablishment i db)) = None"
    by (simp_all add: deleteEstablishment_state storage_getAttachments_def getEstablishment_None)
  have flag: "fst (storage_deleteEstablishment i db) = (storage_getEstablishment i db \<noteq> None)"
    by (simp add: deleteEstablishment_state getEstablishment_None)
  show ?thesis
    using first steps after flag gone by (simp add: deleteAttachment_found)
qed

theorem delete_cascades_witness:
  "distinct (map aid (attachments small_store)) \<and>
   map aid (storage_getAttachments 1 small_store) = [10, 12] \<and>
   fst (storage_deleteEstablishment 1 small_store) \<and>
   attachments (snd (storage_deleteEstablishment 1 small_store)) = [file_of 11 2] \<and>
   \<not> fst (storage_deleteAttachment 10 (snd (storage_deleteEstablishment 1 small_store))) \<and>
   \<not> fst (storage_deleteAttachment 12 (snd (storage_deleteEstablishment 1 small_store)))"
proof -
  have d: "distinct (map aid (attachments small_store))"
    by (simp add: small_store_def file_of_def)
  note t = delete_cascades [OF d, of 1]
  have files: "storage_getAttachments 1 small_store = [file_of 10 1, file_of 12 1]"
    by (simp add: storage_getAttachments_def small_store_def file_of_def)
  have found: "storage_getEstablishment 1 small_store \<noteq> None"
    by (simp add: storage_getEstablishment_def small_store_def estA_def rated_def)
  have "attachments (snd (storage_deleteEstablishment 1 small_store)) =
      filter (\<lambda>a. establishmentId a \<noteq> 1) (attachments small_store)"
    by (rule t [THEN conjunct2, THEN conjunct2, THEN conjunct2, THEN conjunct1])
  then have rest: "attachments (snd (storage_deleteEstablishment 1 small_store)) = [file_of 11 2]"
    by (simp add: small_store_def file_of_def)
  have gone: "\<forall>a \<in> set (storage_getAttachments 1 small_store).
        (\<forall>a' \<in> set (attachments (snd (storage_deleteEstablishment 1 small_store))). aid a' \<noteq> aid a) \<and>
        \<not> fst (storage_deleteAttachment (aid a) (snd (storage_deleteEstablishment 1 small_store)))"
    by (rule t [THEN conjunct2, THEN conjunct2, THEN conjunct2, THEN conjunct2, THEN conjunct2,
          THEN conjunct2, THEN conjunct2, THEN conjunct1])
  have g10: "\<not> fst (storage_deleteAttachment 10 (snd (storage_deleteEstablishment 1 small_store)))"
    using gone [unfolded files, THEN bspec, of "file_of 10 1"] by (simp add: file_of_def)
  have g12: "\<not> fst (storage_deleteAttachment 12 (snd (storage_deleteEstablishment 1 small_store)))"
    using gone [unfolded files, THEN bspec, of "file_of 12 1"] by (simp add: file_of_def)
  have "fst (storage_deleteEstablishment 1 small_store) =
      (storage_getEstablishment 1 small_store \<noteq> None)"
    by (rule t [THEN conjunct2, THEN conjunct2, THEN conjunct2, THEN conjunct2, THEN conjunct2,
          THEN conjunct2, THEN conjunct2, THEN conjunct2])
  with found have ok: "fst (storage_deleteEstablishment 1 small_store)" by simp
  have ids: "map aid (storage_getAttachments 1 small_store) = [10, 12]"
    by (simp add: files file_of_def)
  from d ids ok rest g10 g12 show ?thesis by (intro conjI)
qed

section \<open>Creating an attachment\<close>

lemma dataWithDefaults_other: "k \<noteq> ''userId'' \<Longrightarrow> dataWithDefaults b k = b k"
  by (simp add: dataWithDefaults_def)

lemma dataWithDefaults_keys:
  "dataWithDefaults b ''fileName'' = b ''fileName''"
  "dataWithDefaults b ''fileType'' = b ''fileType''"
  "dataWithDefaults b ''fileSize'' = b ''fileSize''"
  "dataWithDefaults b ''filePath'' = b ''filePath''"
  "dataWithDefaults b ''establishmentId'' = b ''establishmentId''"
  "dataWithDefaults b ''name'' = b ''name''"
  "dataWithDefaults b ''category'' = b ''category''"
  "dataWithDefaults b ''location'' = b ''location''"
  "dataWithDefaults b ''description'' = b ''description''"
  "dataWithDefaults b ''rating'' = b ''rating''"
  "dataWithDefaults b ''coverImage'' = b ''coverImage''"
  by (simp_all add: dataWithDefaults_def)

lemma falsy_default:
  assumes "\<not> truthy (b ''userId'')"
  shows "dataWithDefaults b = b(''userId'' \<mapsto> JNum 1)"
    and "dataWithDefaults (b(''userId'' \<mapsto> JNum 1)) = b(''userId'' \<mapsto> JNum 1)"
    and "dataWithDefaults (b(''userId'' \<mapsto> JNum 0)) = b(''userId'' \<mapsto> JNum 1)"
  using assms by (simp_all add: dataWithDefaults_def)

lemma int4_small: "int4 0" "int4 1" "int4 999" "\<not> int4 3000000000"
  by (simp_all add: int4_def)

lemma userId_accepted:
  assumes "\<not> truthy (b ''userId'') \<or> (\<exists>u. b ''userId'' = Some (JNum u) \<and> int4 u)"
  shows "optional_number (dataWithDefaults b) ''userId'' = []"
proof (cases "truthy (b ''userId'')")
  case False
  then show ?thesis
    by (simp add: optional_number_def dataWithDefaults_def int4_small)
next
  case True
  with assms obtain u where "b ''userId'' = Some (JNum u)" "int4 u" by blast
  with True show ?thesis
    by (simp add: optional_number_def dataWithDefaults_def)
qed

lemma userId_value:
  assumes "\<not> truthy (b ''userId'')"
  shows "number_value (dataWithDefaults b) ''userId'' = Some 1"
  using assms by (simp add: number_value_def dataWithDefaults_def)

lemma not_string_issue: "(\<forall>s. b k \<noteq> Some (JStr s)) \<Longrightarrow> required_string b k \<noteq> []"
  by (simp add: required_string_def split: option.splits json.splits)

lemma string_no_issue: "b k = Some (JStr s) \<Longrightarrow> required_string b k = []"
  "b k = Some (JStr s) \<Longrightarrow> string_value b k = s"
  by (simp_all add: required_string_def string_value_def)

lemma not_int4_issue:
  "(\<forall>n. b k = Some (JNum n) \<longrightarrow> \<not> int4 n) \<Longrightarrow> required_number b k \<noteq> []"
  by (simp add: required_number_def split: option.splits json.splits)

lemma int4_no_issue:
  "b k = Some (JNum n) \<Longrightarrow> int4 n \<Longrightarrow> required_number b k = []"
  "b k = Some (JNum n) \<Longrightarrow> number_value b k = Some n"
  by (simp_all add: required_number_def number_value_def)

lemma attachment_schema_issue:
  assumes "required_string b ''fileName'' \<noteq> [] \<or> required_string b ''fileType'' \<noteq> [] \<or>
     required_string b ''fileSize'' \<noteq> [] \<or> required_string b ''filePath'' \<noteq> [] \<or>
     required_number b ''establishmentId'' \<noteq> []"
  shows "\<exists>issues. insertAttachmentSchema b = Inl issues"
proof -
  let ?issues = "required_string b ''fileName'' @ required_string b ''fileType''
            @ required_string b ''fileSize'' @ required_string b ''filePath''
            @ required_number b ''establishmentId'' @ optional_number b ''userId''"
  from assms have "?issues \<noteq> []" by (simp only: append_is_Nil_conv) blast
  then have "insertAttachmentSchema b = Inl ?issues"
    by (simp add: insertAttachmentSchema_def Let_def del: append_is_Nil_conv)
  then show ?thesis by (rule exI)
qed

lemma attachment_schema_passes:
  assumes "b ''fileName'' = Some (JStr s1)" "b ''fileType'' = Some (JStr s2)"
    "b ''fileSize'' = Some (JStr s3)" "b ''filePath'' = Some (JStr s4)"
    "b ''establishmentId'' = Some (JNum n)" "int4 n"
    "\<not> truthy (b ''userId'')"
  shows "insertAttachmentSchema (dataWithDefaults b) =
     Inr \<lparr>ins_fileName = s1, ins_fileType = s2, ins_fileSize = s3, ins_filePath = s4,
          ins_establishmentId = n, ins_att_userId = Some 1\<rparr>"
proof -
  let ?b = "dataWithDefaults b"
  have k: "?b ''fileName'' = Some (JStr s1)" "?b ''fileType'' = Some (JStr s2)"
    "?b ''fileSize'' = Some (JStr s3)" "?b ''filePath'' = Some (JStr s4)"
    "?b ''establishmentId'' = Some (JNum n)"
    by (simp_all only: dataWithDefaults_keys assms)
  have u: "optional_number ?b ''userId'' = []"
    by (rule userId_accepted) (simp add: assms(7))
  note s = string_no_issue [where b = ?b]
  note i = int4_no_issue [where b = ?b]
  show ?thesis
    by (simp add: insertAttachmentSchema_def s [OF k(1)] s [OF k(2)] s [OF k(3)] s [OF k(4)]
        i(1) [OF k(5) assms(6)] i(2) [OF k(5)] u userId_value [where b = b, OF assms(7)])
qed

lemma parsed_establishmentId:
  assumes "insertAttachmentSchema (dataWithDefaults b) = Inr v"
  shows "b ''establishmentId'' = Some (JNum (ins_establishmentId v))"
proof -
  from assms have "required_number (dataWithDefaults b) ''establishmentId'' = []"
    by (auto simp add: insertAttachmentSchema_def Let_def split: if_splits)
  then obtain n where n: "dataWithDefaults b ''establishmentId'' = Some (JNum n)"
    by (auto simp add: required_number_def split: option.splits json.splits if_splits)
  from assms have "ins_establishmentId v = the (number_value (dataWithDefaults b) ''establishmentId'')"
    by (auto simp add: insertAttachmentSchema_def Let_def split: if_splits)
  with n have "ins_establishmentId v = n" by (simp add: number_value_def)
  with n show ?thesis by (simp add: dataWithDefaults_keys)
qed

lemma post_attachments_cases:
  "post_attachments now b db =
     (case insertAttachmentSchema (dataWithDefaults b) of
        Inl issues \<Rightarrow> (Response 400 (ZodErrors issues), db)
      | Inr v \<Rightarrow>
          (case storage_getEstablishment (ins_establishmentId v) db of
             None \<Rightarrow> (Response 404 (ErrorMessage ''Establishment not found''), db)
           | Some e \<Rightarrow> (Response 201 (Entity (fst (storage_createAttachment now v db))),
                        snd (storage_createAttachment now v db))))"
  by (simp add: post_attachments_def split_beta split: sum.splits option.splits)

text \<open>
  Claim C7, as amended. A request to \<^verbatim>\<open>POST /api/attachments\<close> whose body, with the
  default owner put in, passes the schema and whose \<^verbatim>\<open>establishmentId\<close> references no
  establishment is answered 404, "Establishment not found", and leaves the store as it
  was. A request whose body fails the schema is answered 400 with the issues, and leaves
  the store as it was. So every request whose \<^verbatim>\<open>establishmentId\<close> references no
  establishment leaves the store as it was, and is answered 404 or, when its body fails
  the schema, 400. In terms of the body: with a file name, type, size and path that are
  strings, an \<^verbatim>\<open>establishmentId\<close> that is a 32-bit integer and references no
  establishment, and a falsy \<^verbatim>\<open>userId\<close>, the answer is 404; with one of the four
  strings missing or not a string, or an \<^verbatim>\<open>establishmentId\<close> that is not a 32-bit
  integer, the answer is 400.
\<close>

theorem attachment_needs_establishment:
  "(insertAttachmentSchema (dataWithDefaults b) = Inr v \<and>
    storage_getEstablishment (ins_establishmentId v) db = None \<longrightarrow>
      post_attachments now b db =
        (Response 404 (ErrorMessage ''Establishment not found''), db)) \<and>
   (insertAttachmentSchema (dataWithDefaults b) = Inl issues \<longrightarrow>
      post_attachments now b db = (Response 400 (ZodErrors issues), db)) \<and>
   ((\<forall>n. b ''establishmentId'' = Some (JNum n) \<longrightarrow> storage_getEstablishment n db = None) \<longrightarrow>
      snd (post_attachments now b db) = db \<and>
      (status (fst (post_attachments now b db)) = 404 \<or>
       status (fst (post_attachments now b db)) = 400 \<and>
       (\<exists>issues. insertAttachmentSchema (dataWithDefaults b) = Inl issues))) \<and>
   (b ''fileName'' = Some (JStr s1) \<and> b ''fileType'' = Some (JStr s2) \<and>
    b ''fileSize'' = Some (JStr s3) \<and> b ''filePath'' = Some (JStr s4) \<and>
    b ''establishmentId'' = Some (JNum n) \<and> int4 n \<and> \<not> truthy (b ''userId'') \<and>
    storage_getEstablishment n db = None \<longrightarrow>
      post_attachments now b db =
        (Response 404 (ErrorMessage ''Establishment not found''), db)) \<and>
   ((\<forall>s. b ''fileName'' \<noteq> Some (JStr s)) \<or> (\<forall>s. b ''fileType'' \<noteq> Some (JStr s)) \<or>
    (\<forall>s. b ''fileSize'' \<noteq> Some (JStr s)) \<or> (\<forall>s. b ''filePath'' \<noteq> Some (JStr s)) \<or>
    (\<forall>m. b ''establishmentId'' = Some (JNum m) \<longrightarrow> \<not> int4 m) \<longrightarrow>
      status (fst (post_attachments now b db)) = 400 \<and> snd (post_attachments now b db) = db)"
proof (intro conjI impI)
  assume "insertAttachmentSchema (dataWithDefaults b) = Inr v \<and>
    storage_getEstablishment (ins_establishmentId v) db = None"
  then show "post_attachments now b db =
        (Response 404 (ErrorMessage ''Establishment not found''), db)"
    by (simp add: post_attachments_cases)
next
  assume "insertAttachmentSchema (dataWithDefaults b) = Inl issues"
  then show "post_attachments now b db = (Response 400 (ZodErrors issues), db)"
    by (simp add: post_attachments_cases)
next
  assume a: "\<forall>n. b ''establishmentId'' = Some (JNum n) \<longrightarrow> storage_getEstablishment n db = None"
  show "snd (post_attachments now b db) = db"
  proof (cases "insertAttachmentSchema (dataWithDefaults b)")
    case (Inl issues)
    then show ?thesis by (simp add: post_attachments_cases)
  next
    case (Inr v)
    from parsed_establishmentId [OF Inr] a
    have "storage_getEstablishment (ins_establishmentId v) db = None" by simp
    with Inr show ?thesis by (simp add: post_attachments_cases)
  qed
  show "status (fst (post_attachments now b db)) = 404 \<or>
       status (fst (post_attachments now b db)) = 400 \<and>
       (\<exists>issues. insertAttachmentSchema (dataWithDefaults b) = Inl issues)"
  proof (cases "insertAttachmentSchema (dataWithDefaults b)")
    case (Inl issues)
    then show ?thesis by (simp add: post_attachments_cases)
  next
    case (Inr v)
    from parsed_establishmentId [OF Inr] a
    have "storage_getEstablishment (ins_establishmentId v) db = None" by simp
    with Inr show ?thesis by (simp add: post_attachments_cases)
  qed
next
  assume a: "b ''fileName'' = Some (JStr s1) \<and> b ''fileType'' = Some (JStr s2) \<and>
    b ''fileSize'' = Some (JStr s3) \<and> b ''filePath'' = Some (JStr s4) \<and>
    b ''establishmentId'' = Some (JNum n) \<and> int4 n \<and> \<not> truthy (b ''userId'') \<and>
    storage_getEstablishment n db = None"
  then have "insertAttachmentSchema (dataWithDefaults b) =
     Inr \<lparr>ins_fileName = s1, ins_fileType = s2, ins_fileSize = s3, ins_filePath = s4,
          ins_establishmentId = n, ins_att_userId = Some 1\<rparr>"
    by (intro attachment_schema_passes) simp_all
  with a show "post_attachments now b db =
        (Response 404 (ErrorMessage ''Establishment not found''), db)"
    by (simp add: post_attachments_cases)
next
  assume a: "(\<forall>s. b ''fileName'' \<noteq> Some (JStr s)) \<or> (\<forall>s. b ''fileType'' \<noteq> Some (JStr s)) \<or>
    (\<forall>s. b ''fileSize'' \<noteq> Some (JStr s)) \<or> (\<forall>s. b ''filePath'' \<noteq> Some (JStr s)) \<or>
    (\<forall>m. b ''establishmentId'' = Some (JNum m) \<longrightarrow> \<not> int4 m)"
  let ?b = "dataWithDefaults b"
  from a have "required_string ?b ''fileName'' \<noteq> [] \<or> required_string ?b ''fileType'' \<noteq> [] \<or>
     required_string ?b ''fileSize'' \<noteq> [] \<or> required_string ?b ''filePath'' \<noteq> [] \<or>
     required_number ?b ''establishmentId'' \<noteq> []"
    using not_string_issue [of ?b "''fileName''"] not_string_issue [of ?b "''fileType''"]
      not_string_issue [of ?b "''fileSize''"] not_string_issue [of ?b "''filePath''"]
      not_int4_issue [of ?b "''establishmentId''"]
    by (simp only: dataWithDefaults_keys) blast
  then obtain issues where "insertAttachmentSchema ?b = Inl issues"
    using attachment_schema_issue by blast
  then have "post_attachments now b db = (Response 400 (ZodErrors issues), db)"
    by (simp add: post_attachments_cases)
  then show "status (fst (post_attachments now b db)) = 400"
    and "snd (post_attachments now b db) = db"
    by simp_all
qed


theorem attachment_needs_establishment_witness:
  "menu_body (Some (JNum 999)) None ''establishmentId'' = Some (JNum 999) \<and> int4 999 \<and>
   \<not> truthy (menu_body (Some (JNum 999)) None ''userId'') \<and>
   storage_getEstablishment 999 small_store = None \<and>
   post_attachments 50 (menu_body (Some (JNum 999)) None) small_store =
     (Response 404 (ErrorMessage ''Establishment not found''), small_store) \<and>
   \<not> int4 3000000000 \<and>
   status (fst (post_attachments 50 (menu_body (Some (JNum 3000000000)) None) small_store)) = 400"
proof -
  have none: "storage_getEstablishment 999 small_store = None"
    by (simp add: storage_getEstablishment_def small_store_def estA_def estB_def rated_def)
  have body: "menu_body (Some (JNum 999)) None ''fileName'' = Some (JStr ''menu.pdf'') \<and>
      menu_body (Some (JNum 999)) None ''fileType'' = Some (JStr ''application/pdf'') \<and>
      menu_body (Some (JNum 999)) None ''fileSize'' = Some (JStr ''2.35 MB'') \<and>
      menu_body (Some (JNum 999)) None ''filePath'' = Some (JStr ''/files/menu.pdf'') \<and>
      menu_body (Some (JNum 999)) None ''establishmentId'' = Some (JNum 999) \<and> int4 999 \<and>
      \<not> truthy (menu_body (Some (JNum 999)) None ''userId'') \<and>
      storage_getEstablishment 999 small_store = None"
    by (simp add: menu_body_def int4_small none)
  have missing: "post_attachments 50 (menu_body (Some (JNum 999)) None) small_store =
     (Response 404 (ErrorMessage ''Establishment not found''), small_store)"
    by (rule attachment_needs_establishment [THEN conjunct2, THEN conjunct2, THEN conjunct2,
          THEN conjunct1, THEN mp, OF body])
  have large: "\<forall>m. menu_body (Some (JNum 3000000000)) None ''establishmentId'' = Some (JNum m)
      \<longrightarrow> \<not> int4 m"
    by (simp add: menu_body_def int4_small)
  have "status (fst (post_attachments 50 (menu_body (Some (JNum 3000000000)) None)
      small_store)) = 400"
    by (rule attachment_needs_establishment [THEN conjunct2, THEN conjunct2, THEN conjunct2,
          THEN conjunct2, THEN mp, THEN conjunct1])
       (intro disjI2 large)
  with body missing show ?thesis by (simp add: int4_small)
qed

text \<open>
  A body that names the missing establishment 999 and nothing else fails validation: the
  answer is 400, not 404.
\<close>

theorem attachment_needs_establishment_counterexample:
  "only_establishmentId 999 ''establishmentId'' = Some (JNum 999) \<and>
   storage_getEstablishment 999 small_store = None \<and>
   status (fst (post_attachments 50 (only_establishmentId 999) small_store)) = 400 \<and>
   status (fst (post_attachments 50 (only_establishmentId 999) small_store)) \<noteq> 404"
  by (simp add: post_attachments_def insertAttachmentSchema_def dataWithDefaults_def
      only_establishmentId_def required_string_def required_number_def optional_number_def
      int4_def storage_getEstablishment_def small_store_def estA_def estB_def rated_def)

lemma post_establishments_cases:
  "post_establishments now b db =
     (case insertEstablishmentSchema (dataWithDefaults b) of
        Inl issues \<Rightarrow> (Response 400 (ZodErrors issues), db)
      | Inr v \<Rightarrow> (Response 201 (Entity (fst (storage_createEstablishment now v db))),
                  snd (storage_createEstablishment now v db)))"
  by (simp add: post_establishments_def split_beta split: sum.splits)

lemma parsed_userId:
  "insertEstablishmentSchema (b(''userId'' \<mapsto> JNum 1)) = Inr v \<Longrightarrow> ins_userId v = Some 1"
  "insertAttachmentSchema (b(''userId'' \<mapsto> JNum 1)) = Inr w \<Longrightarrow> ins_att_userId w = Some 1"
  by (auto simp add: insertEstablishmentSchema_def insertAttachmentSchema_def Let_def
      number_value_def split: if_splits)

lemma created_owner:
  "userId (fst (storage_createEstablishment now v db)) =
     (case ins_userId v of None \<Rightarrow> 1 | Some u \<Rightarrow> u)"
  "establishments (snd (storage_createEstablishment now v db)) =
     establishments db @ [fst (storage_createEstablishment now v db)]"
  "att_userId (fst (storage_createAttachment now w db)) =
     (case ins_att_userId w of None \<Rightarrow> 1 | Some u \<Rightarrow> u)"
  "attachments (snd (storage_createAttachment now w db)) =
     attachments db @ [fst (storage_createAttachment now w db)]"
  by (simp_all add: storage_createEstablishment_def storage_createAttachment_def Let_def)

lemma created_fields:
  "name (fst (storage_createEstablishment now v db)) = ins_name v"
  "category (fst (storage_createEstablishment now v db)) = ins_category v"
  "location (fst (storage_createEstablishment now v db)) = ins_location v"
  "eid (fst (storage_createEstablishment now v db)) = next_establishment_id db"
  "fileName (fst (storage_createAttachment now w db)) = ins_fileName w"
  "establishmentId (fst (storage_createAttachment now w db)) = ins_establishmentId w"
  "aid (fst (storage_createAttachment now w db)) = next_attachment_id db"
  by (simp_all add: storage_createEstablishment_def storage_createAttachment_def Let_def)

lemma nullable_no_issue:
  "optional_nullable_string b k = [] \<Longrightarrow> k \<noteq> ''userId'' \<Longrightarrow>
     optional_nullable_string (dataWithDefaults b) k = []"
  by (simp add: optional_nullable_string_def dataWithDefaults_def)

lemma establishment_schema_passes:
  assumes "b ''name'' = Some (JStr s1)" "b ''category'' = Some (JStr s2)"
    "b ''location'' = Some (JStr s3)"
    "optional_nullable_string b ''description'' = []"
    "optional_nullable_string b ''rating'' = []"
    "optional_nullable_string b ''coverImage'' = []"
    "\<not> truthy (b ''userId'')"
  shows "\<exists>v. insertEstablishmentSchema (dataWithDefaults b) = Inr v \<and>
     ins_name v = s1 \<and> ins_category v = s2 \<and> ins_location v = s3 \<and> ins_userId v = Some 1"
proof -
  let ?b = "dataWithDefaults b"
  have k: "?b ''name'' = Some (JStr s1)" "?b ''category'' = Some (JStr s2)"
    "?b ''location'' = Some (JStr s3)"
    by (simp_all only: dataWithDefaults_keys assms)
  have n: "optional_nullable_string ?b ''description'' = []"
    "optional_nullable_string ?b ''rating'' = []"
    "optional_nullable_string ?b ''coverImage'' = []"
    by (simp_all add: nullable_no_issue assms)
  have u: "optional_number ?b ''userId'' = []"
    by (rule userId_accepted) (simp add: assms(7))
  note s = string_no_issue [where b = ?b]
  show ?thesis
    by (simp add: insertEstablishmentSchema_def s [OF k(1)] s [OF k(2)] s [OF k(3)] n u
        userId_value [where b = b, OF assms(7)])
qed


lemma nullable_string_accepted:
  assumes "\<forall>j. b k = Some j \<longrightarrow> j = JNull \<or> (\<exists>s. j = JStr s)"
  shows "optional_nullable_string b k = []"
proof (cases "b k")
  case None
  then show ?thesis by (simp add: optional_nullable_string_def)
next
  case (Some j)
  with assms have "j = JNull \<or> (\<exists>s. j = JStr s)" by simp
  with Some show ?thesis by (auto simp add: optional_nullable_string_def)
qed

lemma create_establishment_store:
  "snd (storage_createEstablishment now v db) =
     db\<lparr>establishments := establishments db @ [fst (storage_createEstablishment now v db)],
        next_establishment_id := next_establishment_id db + 1\<rparr>"
  by (simp add: storage_createEstablishment_def Let_def)

lemma create_attachment_store:
  "snd (storage_createAttachment now w db) =
     db\<lparr>attachments := attachments db @ [fst (storage_createAttachment now w db)],
        next_attachment_id := next_attachment_id db + 1\<rparr>"
  by (simp add: storage_createAttachment_def Let_def)

section \<open>The default owner\<close>

text \<open>
  Claim C10. When \<^verbatim>\<open>userId\<close> in the body is falsy (not there, null, 0, the empty
  string or false), the validated data has \<^verbatim>\<open>userId\<close> 1: both handlers answer as for
  the same body with \<^verbatim>\<open>userId\<close> 1, in particular for \<^verbatim>\<open>userId\<close> 0; a record that is
  created is appended to its table and owned by user 1; and an establishment is created
  (201) whenever the body with \<^verbatim>\<open>userId\<close> 1 passes the schema. Such a body with a name,
  a category and a location that are strings, and with a description, a rating and a
  cover image that are each left out, null or a string, is answered 201 with the new
  establishment, owned by user 1 and appended to the table. Such a body with a file name,
  type, size and path that are strings and the identifier, a 32-bit integer, of an
  existing establishment is answered 201 with the new attachment, owned by user 1,
  of that establishment, and appended to the table.
\<close>

theorem falsy_userId_defaults:
  assumes "\<not> truthy (b ''userId'')"
  shows "dataWithDefaults b ''userId'' = Some (JNum 1) \<and>
     post_establishments now b db = post_establishments now (b(''userId'' \<mapsto> JNum 1)) db \<and>
     post_attachments now b db = post_attachments now (b(''userId'' \<mapsto> JNum 1)) db \<and>
     post_establishments now (b(''userId'' \<mapsto> JNum 0)) db =
       post_establishments now (b(''userId'' \<mapsto> JNum 1)) db \<and>
     post_attachments now (b(''userId'' \<mapsto> JNum 0)) db =
       post_attachments now (b(''userId'' \<mapsto> JNum 1)) db \<and>
     (\<forall>e db'. post_establishments now b db = (Response 201 (Entity e), db') \<longrightarrow>
        userId e = 1 \<and> establishments db' = establishments db @ [e]) \<and>
     (\<forall>a db'. post_attachments now b db = (Response 201 (Entity a), db') \<longrightarrow>
        att_userId a = 1 \<and> attachments db' = attachments db @ [a]) \<and>
     (\<forall>v. insertEstablishmentSchema (b(''userId'' \<mapsto> JNum 1)) = Inr v \<longrightarrow>
        status (fst (post_establishments now b db)) = 201) \<and>
     (b ''name'' = Some (JStr s1) \<and> b ''category'' = Some (JStr s2) \<and>
      b ''location'' = Some (JStr s3) \<and>
      (\<forall>j. b ''description'' = Some j \<longrightarrow> j = JNull \<or> (\<exists>s. j = JStr s)) \<and>
      (\<forall>j. b ''rating'' = Some j \<longrightarrow> j = JNull \<or> (\<exists>s. j = JStr s)) \<and>
      (\<forall>j. b ''coverImage'' = Some j \<longrightarrow> j = JNull \<or> (\<exists>s. j = JStr s)) \<longrightarrow>
        (\<exists>e. post_establishments now b db =
           (Response 201 (Entity e),
            db\<lparr>establishments := establishments db @ [e],
               next_establishment_id := next_establishment_id db + 1\<rparr>) \<and>
           userId e = 1 \<and> name e = s1 \<and> category e = s2 \<and> location e = s3 \<and>
           eid e = next_establishment_id db)) \<and>
     (b ''fileName'' = Some (JStr t1) \<and> b ''fileType'' = Some (JStr t2) \<and>
      b ''fileSize'' = Some (JStr t3) \<and> b ''filePath'' = Some (JStr t4) \<and>
      b ''establishmentId'' = Some (JNum n) \<and> int4 n \<and>
      storage_getEstablishment n db \<noteq> None \<longrightarrow>
        (\<exists>a. post_attachments now b db =
           (Response 201 (Entity a),
            db\<lparr>attachments := attachments db @ [a],
               next_attachment_id := next_attachment_id db + 1\<rparr>) \<and>
           att_userId a = 1 \<and> establishmentId a = n \<and> fileName a = t1 \<and>
           aid a = next_attachment_id db))"
proof -
  note d = falsy_default [of b, OF assms]
  have p1: "dataWithDefaults b ''userId'' = Some (JNum 1)"
    by (simp add: d(1))
  have p2: "post_establishments now b db = post_establishments now (b(''userId'' \<mapsto> JNum 1)) db"
    by (simp only: post_establishments_cases d)
  have p3: "post_attachments now b db = post_attachments now (b(''userId'' \<mapsto> JNum 1)) db"
    by (simp only: post_attachments_cases d)
  have p4: "post_establishments now (b(''userId'' \<mapsto> JNum 0)) db =
       post_establishments now (b(''userId'' \<mapsto> JNum 1)) db"
    by (simp only: post_establishments_cases d)
  have p5: "post_attachments now (b(''userId'' \<mapsto> JNum 0)) db =
       post_attachments now (b(''userId'' \<mapsto> JNum 1)) db"
    by (simp only: post_attachments_cases d)
  have p6: "\<forall>e db'. post_establishments now b db = (Response 201 (Entity e), db') \<longrightarrow>
        userId e = 1 \<and> establishments db' = establishments db @ [e]"
  proof (intro allI impI)
    fix e db'
    assume that: "post_establishments now b db = (Response 201 (Entity e), db')"
    show "userId e = 1 \<and> establishments db' = establishments db @ [e]"
    proof (cases "insertEstablishmentSchema (b(''userId'' \<mapsto> JNum 1))")
      case (Inl issues)
      with that show ?thesis by (simp add: post_establishments_cases d)
    next
      case (Inr v)
      with that have "e = fst (storage_createEstablishment now v db)"
        "db' = snd (storage_createEstablishment now v db)"
        by (simp_all add: post_establishments_cases d)
      then show ?thesis by (simp add: created_owner parsed_userId(1) [OF Inr])
    qed
  qed
  have p7: "\<forall>a db'. post_attachments now b db = (Response 201 (Entity a), db') \<longrightarrow>
        att_userId a = 1 \<and> attachments db' = attachments db @ [a]"
  proof (intro allI impI)
    fix a db'
    assume that: "post_attachments now b db = (Response 201 (Entity a), db')"
    show "att_userId a = 1 \<and> attachments db' = attachments db @ [a]"
    proof (cases "insertAttachmentSchema (b(''userId'' \<mapsto> JNum 1))")
      case (Inl issues)
      with that show ?thesis by (simp add: post_attachments_cases d)
    next
      case (Inr w)
      show ?thesis
      proof (cases "storage_getEstablishment (ins_establishmentId w) db")
        case None
        with Inr that show ?thesis by (simp add: post_attachments_cases d)
      next
        case (Some x)
        with Inr that have "a = fst (storage_createAttachment now w db)"
          "db' = snd (storage_createAttachment now w db)"
          by (simp_all add: post_attachments_cases d)
        then show ?thesis by (simp add: created_owner parsed_userId(2) [OF Inr])
      qed
    qed
  qed
  have p8: "\<forall>v. insertEstablishmentSchema (b(''userId'' \<mapsto> JNum 1)) = Inr v \<longrightarrow>
        status (fst (post_establishments now b db)) = 201"
    by (simp add: post_establishments_cases d)
  have p9: "b ''name'' = Some (JStr s1) \<and> b ''category'' = Some (JStr s2) \<and>
      b ''location'' = Some (JStr s3) \<and>
      (\<forall>j. b ''description'' = Some j \<longrightarrow> j = JNull \<or> (\<exists>s. j = JStr s)) \<and>
      (\<forall>j. b ''rating'' = Some j \<longrightarrow> j = JNull \<or> (\<exists>s. j = JStr s)) \<and>
      (\<forall>j. b ''coverImage'' = Some j \<longrightarrow> j = JNull \<or> (\<exists>s. j = JStr s)) \<longrightarrow>
        (\<exists>e. post_establishments now b db =
           (Response 201 (Entity e),
            db\<lparr>establishments := establishments db @ [e],
               next_establishment_id := next_establishment_id db + 1\<rparr>) \<and>
           userId e = 1 \<and> name e = s1 \<and> category e = s2 \<and> location e = s3 \<and>
           eid e = next_establishment_id db)"
  proof (intro impI, elim conjE)
    assume k: "b ''name'' = Some (JStr s1)" "b ''category'' = Some (JStr s2)"
      "b ''location'' = Some (JStr s3)"
      and o: "\<forall>j. b ''description'' = Some j \<longrightarrow> j = JNull \<or> (\<exists>s. j = JStr s)"
        "\<forall>j. b ''rating'' = Some j \<longrightarrow> j = JNull \<or> (\<exists>s. j = JStr s)"
        "\<forall>j. b ''coverImage'' = Some j \<longrightarrow> j = JNull \<or> (\<exists>s. j = JStr s)"
    obtain v where v: "insertEstablishmentSchema (dataWithDefaults b) = Inr v"
      "ins_name v = s1" "ins_category v = s2" "ins_location v = s3" "ins_userId v = Some 1"
      using establishment_schema_passes [OF k
          nullable_string_accepted [where b = b and k = "''description''", OF o(1)]
          nullable_string_accepted [where b = b and k = "''rating''", OF o(2)]
          nullable_string_accepted [where b = b and k = "''coverImage''", OF o(3)] assms]
      by (elim exE conjE)
    let ?e = "fst (storage_createEstablishment now v db)"
    have "post_establishments now b db =
           (Response 201 (Entity ?e),
            db\<lparr>establishments := establishments db @ [?e],
               next_establishment_id := next_establishment_id db + 1\<rparr>)"
      by (simp add: post_establishments_cases v(1) create_establishment_store [symmetric])
    moreover have "userId ?e = 1" "name ?e = s1" "category ?e = s2" "location ?e = s3"
      "eid ?e = next_establishment_id db"
      by (simp_all add: created_owner created_fields v)
    ultimately show "\<exists>e. post_establishments now b db =
           (Response 201 (Entity e),
            db\<lparr>establishments := establishments db @ [e],
               next_establishment_id := next_establishment_id db + 1\<rparr>) \<and>
           userId e = 1 \<and> name e = s1 \<and> category e = s2 \<and> location e = s3 \<and>
           eid e = next_establishment_id db"
      by (intro exI [of _ ?e] conjI)
  qed
  have p10: "b ''fileName'' = Some (JStr t1) \<and> b ''fileType'' = Some (JStr t2) \<and>
      b ''fileSize'' = Some (JStr t3) \<and> b ''filePath'' = Some (JStr t4) \<and>
      b ''establishmentId'' = Some (JNum n) \<and> int4 n \<and>
      storage_getEstablishment n db \<noteq> None \<longrightarrow>
        (\<exists>a. post_attachments now b db =
           (Response 201 (Entity a),
            db\<lparr>attachments := attachments db @ [a],
               next_attachment_id := next_attachment_id db + 1\<rparr>) \<and>
           att_userId a = 1 \<and> establishmentId a = n \<and> fileName a = t1 \<and>
           aid a = next_attachment_id db)"
  proof (intro impI, elim conjE)
    assume k: "b ''fileName'' = Some (JStr t1)" "b ''fileType'' = Some (JStr t2)"
      "b ''fileSize'' = Some (JStr t3)" "b ''filePath'' = Some (JStr t4)"
      "b ''establishmentId'' = Some (JNum n)" "int4 n"
      and g: "storage_getEstablishment n db \<noteq> None"
    define w where "w = \<lparr>ins_fileName = t1, ins_fileType = t2, ins_fileSize = t3,
       ins_filePath = t4, ins_establishmentId = n, ins_att_userId = Some 1\<rparr>"
    have v: "insertAttachmentSchema (dataWithDefaults b) = Inr w"
      unfolding w_def by (rule attachment_schema_passes [OF k assms])
    have f: "ins_establishmentId w = n" "ins_fileName w = t1" "ins_att_userId w = Some 1"
      by (simp_all add: w_def)
    from g obtain x where x: "storage_getEstablishment n db = Some x"
      by (cases "storage_getEstablishment n db") simp_all
    let ?a = "fst (storage_createAttachment now w db)"
    have "post_attachments now b db =
           (Response 201 (Entity ?a),
            db\<lparr>attachments := attachments db @ [?a],
               next_attachment_id := next_attachment_id db + 1\<rparr>)"
      by (simp add: post_attachments_cases v f(1) x create_attachment_store [symmetric])
    moreover have "att_userId ?a = 1" "establishmentId ?a = n" "fileName ?a = t1"
      "aid ?a = next_attachment_id db"
      by (simp_all add: created_owner created_fields f)
    ultimately show "\<exists>a. post_attachments now b db =
           (Response 201 (Entity a),
            db\<lparr>attachments := attachments db @ [a],
               next_attachment_id := next_attachment_id db + 1\<rparr>) \<and>
           att_userId a = 1 \<and> establishmentId a = n \<and> fileName a = t1 \<and>
           aid a = next_attachment_id db"
      by (intro exI [of _ ?a] conjI)
  qed
  show ?thesis
    by (intro conjI) (rule p1 p2 p3 p4 p5 p6 p7 p8 p9 p10)+
qed


theorem falsy_userId_defaults_witness:
  "\<not> truthy (kiosk_body (Some (JNum 0)) ''userId'') \<and>
   dataWithDefaults (kiosk_body (Some (JNum 0))) ''userId'' = Some (JNum 1) \<and>
   status (fst (post_establishments 50 (kiosk_body (Some (JNum 0))) small_store)) = 201 \<and>
   payload (fst (post_establishments 50 (kiosk_body (Some (JNum 0))) small_store)) =
     Entity (last (establishments
       (snd (post_establishments 50 (kiosk_body (Some (JNum 0))) small_store)))) \<and>
   map name (establishments
     (snd (post_establishments 50 (kiosk_body (Some (JNum 0))) small_store))) =
     [''A'', ''B'', ''Kiosk''] \<and>
   userId (last (establishments
     (snd (post_establishments 50 (kiosk_body (Some (JNum 0))) small_store)))) = 1 \<and>
   \<not> truthy (menu_body (Some (JNum 1)) (Some (JNum 0)) ''userId'') \<and>
   storage_getEstablishment 1 small_store \<noteq> None \<and>
   status (fst (post_attachments 50 (menu_body (Some (JNum 1)) (Some (JNum 0)))
     small_store)) = 201 \<and>
   payload (fst (post_attachments 50 (menu_body (Some (JNum 1)) (Some (JNum 0)))
     small_store)) =
     Entity (last (attachments
       (snd (post_attachments 50 (menu_body (Some (JNum 1)) (Some (JNum 0))) small_store)))) \<and>
   map aid (attachments
     (snd (post_attachments 50 (menu_body (Some (JNum 1)) (Some (JNum 0))) small_store))) =
     [10, 11, 12, 13] \<and>
   att_userId (last (attachments
     (snd (post_attachments 50 (menu_body (Some (JNum 1)) (Some (JNum 0))) small_store)))) = 1 \<and>
   establishmentId (last (attachments
     (snd (post_attachments 50 (menu_body (Some (JNum 1)) (Some (JNum 0))) small_store)))) = 1"
proof -
  let ?kb = "kiosk_body (Some (JNum 0))"
  let ?mb = "menu_body (Some (JNum 1)) (Some (JNum 0))"
  have f: "\<not> truthy (?kb ''userId'')"
    by (simp add: kiosk_body_def)
  have g: "\<not> truthy (?mb ''userId'')"
    by (simp add: menu_body_def)
  have there: "storage_getEstablishment 1 small_store \<noteq> None"
    by (simp add: storage_getEstablishment_def small_store_def estA_def estB_def rated_def)
  note t = falsy_userId_defaults [where b = ?kb and now = 50 and db = small_store, OF f]
  note u = falsy_userId_defaults [where b = ?mb and now = 50 and db = small_store, OF g]
  have kb: "?kb ''name'' = Some (JStr ''Kiosk'') \<and> ?kb ''category'' = Some (JStr ''Retail'') \<and>
      ?kb ''location'' = Some (JStr ''Downtown'') \<and>
      (\<forall>j. ?kb ''description'' = Some j \<longrightarrow> j = JNull \<or> (\<exists>s. j = JStr s)) \<and>
      (\<forall>j. ?kb ''rating'' = Some j \<longrightarrow> j = JNull \<or> (\<exists>s. j = JStr s)) \<and>
      (\<forall>j. ?kb ''coverImage'' = Some j \<longrightarrow> j = JNull \<or> (\<exists>s. j = JStr s))"
    by (simp add: kiosk_body_def)
  have mb: "?mb ''fileName'' = Some (JStr ''menu.pdf'') \<and>
      ?mb ''fileType'' = Some (JStr ''application/pdf'') \<and>
      ?mb ''fileSize'' = Some (JStr ''2.35 MB'') \<and>
      ?mb ''filePath'' = Some (JStr ''/files/menu.pdf'') \<and>
      ?mb ''establishmentId'' = Some (JNum 1) \<and> int4 1 \<and>
      storage_getEstablishment 1 small_store \<noteq> None"
    by (simp add: menu_body_def int4_small there)
  obtain e where e: "post_establishments 50 ?kb small_store =
      (Response 201 (Entity e),
       small_store\<lparr>establishments := establishments small_store @ [e],
          next_establishment_id := next_establishment_id small_store + 1\<rparr>)"
    "userId e = 1" "name e = ''Kiosk''"
    using t [THEN conjunct2, THEN conjunct2, THEN conjunct2, THEN conjunct2, THEN conjunct2,
          THEN conjunct2, THEN conjunct2, THEN conjunct2, THEN conjunct1, THEN mp, OF kb]
    by (elim exE conjE)
  obtain a where a: "post_attachments 50 ?mb small_store =
      (Response 201 (Entity a),
       small_store\<lparr>attachments := attachments small_store @ [a],
          next_attachment_id := next_attachment_id small_store + 1\<rparr>)"
    "att_userId a = 1" "establishmentId a = 1" "aid a = next_attachment_id small_store"
    using u [THEN conjunct2, THEN conjunct2, THEN conjunct2, THEN conjunct2, THEN conjunct2,
          THEN conjunct2, THEN conjunct2, THEN conjunct2, THEN conjunct2, THEN mp, OF mb]
    by (elim exE conjE)
  have r1: "status (fst (post_establishments 50 ?kb small_store)) = 201"
    "payload (fst (post_establishments 50 ?kb small_store)) =
       Entity (last (establishments (snd (post_establishments 50 ?kb small_store))))"
    "map name (establishments (snd (post_establishments 50 ?kb small_store))) =
       [''A'', ''B'', ''Kiosk'']"
    "userId (last (establishments (snd (post_establishments 50 ?kb small_store)))) = 1"
    unfolding e(1) by (simp_all add: e(2,3) small_store_def estA_def estB_def rated_def)
  have r2: "status (fst (post_attachments 50 ?mb small_store)) = 201"
    "payload (fst (post_attachments 50 ?mb small_store)) =
       Entity (last (attachments (snd (post_attachments 50 ?mb small_store))))"
    "map aid (attachments (snd (post_attachments 50 ?mb small_store))) = [10, 11, 12, 13]"
    "att_userId (last (attachments (snd (post_attachments 50 ?mb small_store)))) = 1"
    "establishmentId (last (attachments (snd (post_attachments 50 ?mb small_store)))) = 1"
    unfolding a(1) by (simp_all add: a(2,3,4) small_store_def file_of_def)
  show ?thesis
    by (intro conjI) (rule f g there t [THEN conjunct1] r1 r2)+
qed

end
